theory Spec2Isabelle
  imports Complex_Main
begin

section \<open>Data model of the biomass allocation program\<close>

text \<open>
  The program is a single Python module, \<^verbatim>\<open>main.py\<close>. Its core is the function
  \<^verbatim>\<open>solve_biomass_model\<close>, which builds a linear program over the decision variables
  \<^verbatim>\<open>Q[(f, p)]\<close>, hands it to an LP solver and derives a table of line items from the
  solution. Python floats are modelled as real numbers, dictionaries as partial maps,
  and a missing key as the error value \<open>KeyError\<close>. Feedstocks and products are the
  strings the source uses.
\<close>

datatype error = KeyError string

type_synonym product = string
type_synonym feedstock = string
type_synonym table = "product \<rightharpoonup> real"
type_synonym var = "feedstock \<times> product"

record params =
  slash_avail :: real
  woodchips_avail :: real
  include_woodchips :: bool
  selected_products :: "product list"
  max_volume :: table
  processing_cost :: table
  depreciation_per_ton :: table
  slash_harvest_cost :: table
  slash_transport_cost :: table
  slash_wood_cost :: table
  slash_carbon_credit :: table
  woodchips_harvest_cost :: table
  woodchips_transport_cost :: table
  woodchips_wood_cost :: table
  woodchips_carbon_credit :: table
  market_price :: table
  max_deliv_cost :: table
  reg_factor :: real

subsection \<open>Linear expressions, constraints and problems\<close>

text \<open>
  The expressions the source hands to the modelling library: a variable \<^verbatim>\<open>Q[(f, p)]\<close>,
  a number, a number times an expression, and \<^verbatim>\<open>lpSum\<close> of a list of expressions.
  \<open>LpDummy\<close> is the library's own variable \<^verbatim>\<open>__dummy\<close>, which only a solve puts into
  an expression, with the coefficient 0. A constraint is \<^verbatim>\<open>lhs <= rhs\<close> with a name.
  Every variable is created with \<^verbatim>\<open>lowBound=0\<close>.

  The library keeps an expression as a dictionary from variables to coefficients and a
  constant. \<open>vars_of\<close> lists the keys of that dictionary: a product with the number 0
  is the empty expression, so \<^verbatim>\<open>0 * Q[(f, p)]\<close> has no key. \<open>has_dummy\<close> tells whether
  \<^verbatim>\<open>__dummy\<close> is among the keys.
\<close>

datatype lin_expr =
    LpVar var
  | LpConst real
  | LpScale real lin_expr
  | LpSum "lin_expr list"
  | LpDummy

record lp_constraint =
  c_name :: string
  c_lhs :: lin_expr
  c_rhs :: lin_expr

record lp_problem =
  variables :: "var list"
  objective :: lin_expr
  constraints :: "lp_constraint list"

fun eval :: "(var \<Rightarrow> real) \<Rightarrow> lin_expr \<Rightarrow> real" where
  "eval q (LpVar v) = q v"
| "eval q (LpConst c) = c"
| "eval q (LpScale c e) = c * eval q e"
| "eval q (LpSum es) = sum_list (map (eval q) es)"
| "eval q LpDummy = 0"

fun vars_of :: "lin_expr \<Rightarrow> var list" where
  "vars_of (LpVar v) = [v]"
| "vars_of (LpConst c) = []"
| "vars_of (LpScale c e) = (if c = 0 then [] else vars_of e)"
| "vars_of (LpSum es) = concat (map vars_of es)"
| "vars_of LpDummy = []"

fun has_dummy :: "lin_expr \<Rightarrow> bool" where
  "has_dummy (LpVar v) = False"
| "has_dummy (LpConst c) = False"
| "has_dummy (LpScale c e) = (c \<noteq> 0 \<and> has_dummy e)"
| "has_dummy (LpSum es) = (\<exists>e \<in> set es. has_dummy e)"
| "has_dummy LpDummy = True"

definition satisfies :: "(var \<Rightarrow> real) \<Rightarrow> lp_constraint \<Rightarrow> bool" where
  "satisfies q c = (eval q (c_lhs c) \<le> eval q (c_rhs c))"

definition feasible :: "lp_problem \<Rightarrow> (var \<Rightarrow> real) \<Rightarrow> bool" where
  "feasible lp q =
     ((\<forall>v \<in> set (variables lp). 0 \<le> q v) \<and> (\<forall>c \<in> set (constraints lp). satisfies q c))"

definition is_optimum :: "lp_problem \<Rightarrow> (var \<Rightarrow> real) \<Rightarrow> bool" where
  "is_optimum lp q =
     (feasible lp q \<and> (\<forall>q'. feasible lp q' \<longrightarrow> eval q' (objective lp) \<le> eval q (objective lp)))"

subsection \<open>The solver interface\<close>

text \<open>
  The LP solver is not part of the program: it is a parameter of the model. A solve
  yields a status code and, for each variable, a value or no value (\<^verbatim>\<open>varValue\<close> is
  \<^verbatim>\<open>None\<close>). \<open>LpStatus\<close> is the library's table from status codes to labels.
  The solver gives a value to variables \<^verbatim>\<open>Q[(f, p)]\<close> only: \<^verbatim>\<open>__dummy\<close> never has one.

  \<open>lp_value\<close> is the library's \<^verbatim>\<open>value\<close>: the expression evaluated at the variables'
  values, and no value (\<^verbatim>\<open>None\<close>) when a key of the expression has none, whatever its
  coefficient. \<open>lp_truthy\<close> is the truth value of an expression: it has a key or a
  non-zero constant. \<open>solved_objective\<close> is the objective as a solve leaves it: an
  objective without a key gets \<^verbatim>\<open>__dummy\<close> for the solve, and keeps it afterwards with
  the coefficient 0.
\<close>

datatype lp_status = NotSolved | Optimal | Infeasible | Unbounded | Undefined

fun LpStatus :: "lp_status \<Rightarrow> string" where
  "LpStatus NotSolved = ''Not Solved''"
| "LpStatus Optimal = ''Optimal''"
| "LpStatus Infeasible = ''Infeasible''"
| "LpStatus Unbounded = ''Unbounded''"
| "LpStatus Undefined = ''Undefined''"

record solution =
  status :: lp_status
  varValue :: "var \<Rightarrow> real option"

type_synonym solver = "lp_problem \<Rightarrow> solution"

definition value_or_zero :: "real option \<Rightarrow> real" where
  "value_or_zero x = (case x of None \<Rightarrow> 0 | Some v \<Rightarrow> v)"

definition lp_value :: "(var \<Rightarrow> real option) \<Rightarrow> lin_expr \<Rightarrow> real option" where
  "lp_value vv e =
     (if has_dummy e \<or> (\<exists>v \<in> set (vars_of e). vv v = None) then None
      else Some (eval (\<lambda>v. value_or_zero (vv v)) e))"

definition lp_truthy :: "lin_expr \<Rightarrow> bool" where
  "lp_truthy e = (vars_of e \<noteq> [] \<or> has_dummy e \<or> eval (\<lambda>v. 0) e \<noteq> 0)"

definition solved_objective :: "lin_expr \<Rightarrow> lin_expr" where
  "solved_objective e = (if vars_of e = [] then LpSum [e, LpDummy] else e)"

subsection \<open>Errors, dictionary reads and loops\<close>

definition ebind :: "error + 'a \<Rightarrow> ('a \<Rightarrow> error + 'b) \<Rightarrow> error + 'b" where
  "ebind m f = (case m of Inl e \<Rightarrow> Inl e | Inr x \<Rightarrow> f x)"

definition getitem :: "table \<Rightarrow> product \<Rightarrow> error + real" where
  "getitem d k = (case d k of None \<Rightarrow> Inl (KeyError k) | Some v \<Rightarrow> Inr v)"

text \<open>A \<^verbatim>\<open>for\<close> loop whose body updates a state and may raise.\<close>

fun for_each :: "'a list \<Rightarrow> ('a \<Rightarrow> 's \<Rightarrow> error + 's) \<Rightarrow> 's \<Rightarrow> error + 's" where
  "for_each [] body s = Inr s"
| "for_each (x # xs) body s =
     (case body x s of Inl e \<Rightarrow> Inl e | Inr s' \<Rightarrow> for_each xs body s')"

text \<open>
  Python's \<^verbatim>\<open>round(x, 2)\<close> on reals: to the nearest multiple of 1/100, a tie to the
  even one.
\<close>

definition round2 :: "real \<Rightarrow> real" where
  "round2 x =
     (let y = x * 100; n = \<lfloor>y\<rfloor>; d = y - of_int n
      in (if d < 1 / 2 then of_int n
          else if 1 / 2 < d then of_int (n + 1)
          else if even n then of_int n else of_int (n + 1)) / 100)"

section \<open>The model builder\<close>

text \<open>Lines 62--64: the active feedstocks.\<close>

definition feedstocks :: "params \<Rightarrow> feedstock list" where
  "feedstocks P = [''slash''] @ (if include_woodchips P then [''woodchips''] else [])"

text \<open>Lines 70--73: the keys of the dictionary \<^verbatim>\<open>Q\<close>, in creation order.\<close>

definition Q_keys :: "params \<Rightarrow> var list" where
  "Q_keys P = concat (map (\<lambda>p. map (\<lambda>f. (f, p)) (feedstocks P)) (selected_products P))"

text \<open>Lines 80--96: one term of the objective.\<close>

definition obj_term :: "params \<Rightarrow> product \<Rightarrow> feedstock \<Rightarrow> error + lin_expr" where
  "obj_term P p f =
     ebind
       (if f = ''slash'' then
          ebind (getitem (slash_harvest_cost P) p) (\<lambda>h.
          ebind (getitem (slash_transport_cost P) p) (\<lambda>t.
          ebind (getitem (slash_wood_cost P) p) (\<lambda>w.
          ebind (getitem (slash_carbon_credit P) p) (\<lambda>c.
          Inr (h + t + w, c)))))
        else
          ebind (getitem (woodchips_harvest_cost P) p) (\<lambda>h.
          ebind (getitem (woodchips_transport_cost P) p) (\<lambda>t.
          ebind (getitem (woodchips_wood_cost P) p) (\<lambda>w.
          ebind (getitem (woodchips_carbon_credit P) p) (\<lambda>c.
          Inr (h + t + w, c))))))
       (\<lambda>(base_cost, carbon).
          ebind (getitem (processing_cost P) p) (\<lambda>pc.
          ebind (getitem (depreciation_per_ton P) p) (\<lambda>dep.
          ebind (getitem (market_price P) p) (\<lambda>mp.
          let delivered_cost = base_cost * (1 + reg_factor P) + pc + dep;
              revenue_per_ton = mp + carbon;
              net_margin = revenue_per_ton - delivered_cost
          in Inr (LpScale net_margin (LpVar (f, p)))))))"

text \<open>Lines 76--98: the list \<^verbatim>\<open>obj_terms\<close>, products outside, feedstocks inside.\<close>

definition obj_terms :: "params \<Rightarrow> error + lin_expr list" where
  "obj_terms P =
     for_each (selected_products P)
       (\<lambda>p acc. for_each (feedstocks P)
          (\<lambda>f acc. ebind (obj_term P p f) (\<lambda>t. Inr (acc @ [t]))) acc) []"

text \<open>Lines 102--104 and 107--110: the two availability constraints.\<close>

definition slash_avail_constraint :: "params \<Rightarrow> lp_constraint" where
  "slash_avail_constraint P =
     \<lparr>c_name = ''SlashAvail'',
      c_lhs = LpSum (map (\<lambda>p. LpVar (''slash'', p))
                (filter (\<lambda>p. (''slash'', p) \<in> set (Q_keys P)) (selected_products P))),
      c_rhs = LpConst (slash_avail P)\<rparr>"

definition woodchips_avail_constraint :: "params \<Rightarrow> lp_constraint" where
  "woodchips_avail_constraint P =
     \<lparr>c_name = ''WoodchipsAvail'',
      c_lhs = LpSum (map (\<lambda>p. LpVar (''woodchips'', p))
                (filter (\<lambda>p. (''woodchips'', p) \<in> set (Q_keys P)) (selected_products P))),
      c_rhs = LpConst (woodchips_avail P)\<rparr>"

text \<open>Lines 120--129: the delivered cost per ton of one pair, in the cost-cap block.\<close>

definition c_deliver :: "params \<Rightarrow> product \<Rightarrow> feedstock \<Rightarrow> error + real" where
  "c_deliver P p f =
     ebind
       (if f = ''slash'' then
          ebind (getitem (slash_harvest_cost P) p) (\<lambda>h.
          ebind (getitem (slash_transport_cost P) p) (\<lambda>t.
          ebind (getitem (slash_wood_cost P) p) (\<lambda>w.
          Inr (h + t + w))))
        else
          ebind (getitem (woodchips_harvest_cost P) p) (\<lambda>h.
          ebind (getitem (woodchips_transport_cost P) p) (\<lambda>t.
          ebind (getitem (woodchips_wood_cost P) p) (\<lambda>w.
          Inr (h + t + w)))))
       (\<lambda>base_cost.
          ebind (getitem (processing_cost P) p) (\<lambda>pc.
          ebind (getitem (depreciation_per_ton P) p) (\<lambda>dep.
          Inr (base_cost * (1 + reg_factor P) + pc + dep))))"

text \<open>Lines 114--135: one \<^verbatim>\<open>MaxDeliveredCost\<close> constraint per product.\<close>

definition max_cost_constraint :: "params \<Rightarrow> product \<Rightarrow> error + lp_constraint" where
  "max_cost_constraint P p =
     ebind
       (for_each (feedstocks P)
          (\<lambda>f (sum_cost_expr, sum_tons_expr).
             if (f, p) \<notin> set (Q_keys P) then Inr (sum_cost_expr, sum_tons_expr)
             else ebind (c_deliver P p f) (\<lambda>c.
                    Inr (sum_cost_expr @ [LpScale c (LpVar (f, p))],
                         sum_tons_expr @ [LpVar (f, p)])))
          ([], []))
       (\<lambda>(sum_cost_expr, sum_tons_expr).
          ebind (getitem (max_deliv_cost P) p) (\<lambda>m.
          Inr \<lparr>c_name = ''MaxDeliveredCost_'' @ p,
               c_lhs = LpSum sum_cost_expr,
               c_rhs = LpScale m (LpSum sum_tons_expr)\<rparr>))"

text \<open>Lines 138--141: one \<^verbatim>\<open>MaxVolume\<close> constraint per product.\<close>

definition max_volume_constraint :: "params \<Rightarrow> product \<Rightarrow> error + lp_constraint" where
  "max_volume_constraint P p =
     ebind (getitem (max_volume P) p) (\<lambda>m.
     Inr \<lparr>c_name = ''MaxVolume_'' @ p,
          c_lhs = LpSum (map (\<lambda>f. LpVar (f, p))
                    (filter (\<lambda>f. (f, p) \<in> set (Q_keys P)) (feedstocks P))),
          c_rhs = LpConst m\<rparr>)"

text \<open>
  Lines 62--141: the whole problem, the constraints in the order they are added. The
  list is kept as built; the names of the constraints are distinct when the selected
  products are.

  The model covers the inputs of the documented type: distinct selected products whose
  names the library keeps as they are, and finite numbers. Outside it the library raises
  its own error \<^verbatim>\<open>PulpError\<close> while the problem is built, which this model does not
  have: for a product selected twice (a second constraint with a name already taken),
  for product names that collide once the library has replaced the characters it does
  not accept in a name, and for a coefficient that is infinite or not a number. The only
  error of the model is the \<^verbatim>\<open>KeyError\<close> of a table without an entry for a selected
  product.
\<close>

definition build_model :: "params \<Rightarrow> error + lp_problem" where
  "build_model P =
     ebind (obj_terms P) (\<lambda>ts.
     ebind (for_each (selected_products P)
              (\<lambda>p cs. ebind (max_cost_constraint P p) (\<lambda>c. Inr (cs @ [c])))
              ([slash_avail_constraint P] @
               (if include_woodchips P then [woodchips_avail_constraint P] else []))) (\<lambda>cs.
     ebind (for_each (selected_products P)
              (\<lambda>p cs. ebind (max_volume_constraint P p) (\<lambda>c. Inr (cs @ [c]))) cs) (\<lambda>cs.
     Inr \<lparr>variables = Q_keys P, objective = LpSum ts, constraints = cs\<rparr>)))"

section \<open>Solving and the detail table\<close>

record row =
  Product :: product
  Feedstock :: feedstock
  Allocated :: real
  DeliveredCost :: real
  Revenue :: real
  NetMargin :: real
  ProcessingCost :: real
  Depreciation :: real
  TotalDeliveredCost :: real
  TotalRevenue :: real
  TotalNetMargin :: real

text \<open>Lines 152--186: the body of the row loop for one pair.\<close>

definition detail_row ::
  "params \<Rightarrow> (var \<Rightarrow> real option) \<Rightarrow> product \<Rightarrow> feedstock \<Rightarrow> row list \<Rightarrow> error + row list" where
  "detail_row P vv p f rows =
     (if (f, p) \<notin> set (Q_keys P) then Inr rows
      else let allocated = value_or_zero (vv (f, p)) in
        if allocated < 1 / 1000000 then Inr rows
        else
          ebind
            (if f = ''slash'' then
               ebind (getitem (slash_harvest_cost P) p) (\<lambda>h.
               ebind (getitem (slash_transport_cost P) p) (\<lambda>t.
               ebind (getitem (slash_wood_cost P) p) (\<lambda>w.
               ebind (getitem (slash_carbon_credit P) p) (\<lambda>c.
               Inr (h + t + w, c)))))
             else
               ebind (getitem (woodchips_harvest_cost P) p) (\<lambda>h.
               ebind (getitem (woodchips_transport_cost P) p) (\<lambda>t.
               ebind (getitem (woodchips_wood_cost P) p) (\<lambda>w.
               ebind (getitem (woodchips_carbon_credit P) p) (\<lambda>c.
               Inr (h + t + w, c))))))
            (\<lambda>(base_cost, carbon).
               ebind (getitem (processing_cost P) p) (\<lambda>pc.
               ebind (getitem (depreciation_per_ton P) p) (\<lambda>dep.
               ebind (getitem (market_price P) p) (\<lambda>mp.
               let delivered_cost_per_ton = base_cost * (1 + reg_factor P) + pc + dep;
                   revenue_per_ton = mp + carbon;
                   net_margin_per_ton = revenue_per_ton - delivered_cost_per_ton
               in Inr (rows @
                  [\<lparr>Product = p,
                    Feedstock = f,
                    Allocated = round2 allocated,
                    DeliveredCost = round2 delivered_cost_per_ton,
                    Revenue = round2 revenue_per_ton,
                    NetMargin = round2 net_margin_per_ton,
                    ProcessingCost = round2 pc,
                    Depreciation = round2 dep,
                    TotalDeliveredCost = round2 (delivered_cost_per_ton * allocated),
                    TotalRevenue = round2 (revenue_per_ton * allocated),
                    TotalNetMargin = round2 (net_margin_per_ton * allocated)\<rparr>]))))))"

text \<open>Lines 149--186: the row loop.\<close>

definition detail_rows :: "params \<Rightarrow> (var \<Rightarrow> real option) \<Rightarrow> error + row list" where
  "detail_rows P vv =
     for_each (selected_products P)
       (\<lambda>p rows. for_each (feedstocks P) (\<lambda>f rows. detail_row P vv p f rows) rows) []"

text \<open>
  Lines 62--189: the function, with the solver as a parameter. Line 146 reads the
  objective after the solve of line 144, hence \<open>solved_objective\<close>.
\<close>

definition solve_biomass_model ::
  "solver \<Rightarrow> params \<Rightarrow> error + (string \<times> row list \<times> real option)" where
  "solve_biomass_model slv P =
     ebind (build_model P) (\<lambda>model.
     let sol = slv model;
         objective_after = solved_objective (objective model);
         status_str = LpStatus (status sol);
         total_net_revenue =
           (if lp_truthy objective_after then lp_value (varValue sol) objective_after
            else Some 0)
     in ebind (detail_rows P (varValue sol)) (\<lambda>rows.
        Inr (status_str, rows, total_net_revenue)))"

section \<open>The documented formulas and the closed form of the model\<close>

text \<open>
  The per-ton formulas as the documentation states them, and the linear program and the
  detail table written as comprehensions over the (product, feedstock) pairs. The
  builder and the row loop above are shown to compute exactly these.
\<close>

definition base_cost :: "params \<Rightarrow> feedstock \<Rightarrow> product \<Rightarrow> real" where
  "base_cost P f p =
     (if f = ''slash''
      then the (slash_harvest_cost P p) + the (slash_transport_cost P p) + the (slash_wood_cost P p)
      else the (woodchips_harvest_cost P p) + the (woodchips_transport_cost P p)
           + the (woodchips_wood_cost P p))"

definition carbon_credit :: "params \<Rightarrow> feedstock \<Rightarrow> product \<Rightarrow> real" where
  "carbon_credit P f p =
     (if f = ''slash'' then the (slash_carbon_credit P p) else the (woodchips_carbon_credit P p))"

definition delivered_cost_per_ton :: "params \<Rightarrow> feedstock \<Rightarrow> product \<Rightarrow> real" where
  "delivered_cost_per_ton P f p =
     base_cost P f p * (1 + reg_factor P) + the (processing_cost P p)
     + the (depreciation_per_ton P p)"

definition revenue_per_ton :: "params \<Rightarrow> feedstock \<Rightarrow> product \<Rightarrow> real" where
  "revenue_per_ton P f p = the (market_price P p) + carbon_credit P f p"

definition net_margin_per_ton :: "params \<Rightarrow> feedstock \<Rightarrow> product \<Rightarrow> real" where
  "net_margin_per_ton P f p = revenue_per_ton P f p - delivered_cost_per_ton P f p"

definition cost_keys :: "params \<Rightarrow> product \<Rightarrow> feedstock \<Rightarrow> bool" where
  "cost_keys P p f =
     ((if f = ''slash''
       then slash_harvest_cost P p \<noteq> None \<and> slash_transport_cost P p \<noteq> None
            \<and> slash_wood_cost P p \<noteq> None
       else woodchips_harvest_cost P p \<noteq> None \<and> woodchips_transport_cost P p \<noteq> None
            \<and> woodchips_wood_cost P p \<noteq> None)
      \<and> processing_cost P p \<noteq> None \<and> depreciation_per_ton P p \<noteq> None)"

definition pair_keys :: "params \<Rightarrow> product \<Rightarrow> feedstock \<Rightarrow> bool" where
  "pair_keys P p f =
     (cost_keys P p f
      \<and> (if f = ''slash'' then slash_carbon_credit P p \<noteq> None
         else woodchips_carbon_credit P p \<noteq> None)
      \<and> market_price P p \<noteq> None)"

definition all_pairs :: "params \<Rightarrow> (product \<times> feedstock) list" where
  "all_pairs P = concat (map (\<lambda>p. map (\<lambda>f. (p, f)) (feedstocks P)) (selected_products P))"

definition objective_spec :: "params \<Rightarrow> lin_expr" where
  "objective_spec P =
     LpSum (map (\<lambda>(p, f). LpScale (net_margin_per_ton P f p) (LpVar (f, p))) (all_pairs P))"

definition slash_avail_spec :: "params \<Rightarrow> lp_constraint" where
  "slash_avail_spec P =
     \<lparr>c_name = ''SlashAvail'',
      c_lhs = LpSum (map (\<lambda>p. LpVar (''slash'', p)) (selected_products P)),
      c_rhs = LpConst (slash_avail P)\<rparr>"

definition woodchips_avail_spec :: "params \<Rightarrow> lp_constraint" where
  "woodchips_avail_spec P =
     \<lparr>c_name = ''WoodchipsAvail'',
      c_lhs = LpSum (map (\<lambda>p. LpVar (''woodchips'', p)) (selected_products P)),
      c_rhs = LpConst (woodchips_avail P)\<rparr>"

definition max_cost_spec :: "params \<Rightarrow> product \<Rightarrow> lp_constraint" where
  "max_cost_spec P p =
     \<lparr>c_name = ''MaxDeliveredCost_'' @ p,
      c_lhs = LpSum (map (\<lambda>f. LpScale (delivered_cost_per_ton P f p) (LpVar (f, p)))
                (feedstocks P)),
      c_rhs = LpScale (the (max_deliv_cost P p))
                (LpSum (map (\<lambda>f. LpVar (f, p)) (feedstocks P)))\<rparr>"

definition max_volume_spec :: "params \<Rightarrow> product \<Rightarrow> lp_constraint" where
  "max_volume_spec P p =
     \<lparr>c_name = ''MaxVolume_'' @ p,
      c_lhs = LpSum (map (\<lambda>f. LpVar (f, p)) (feedstocks P)),
      c_rhs = LpConst (the (max_volume P p))\<rparr>"

definition lp_spec :: "params \<Rightarrow> lp_problem" where
  "lp_spec P =
     \<lparr>variables = Q_keys P,
      objective = objective_spec P,
      constraints =
        [slash_avail_spec P]
        @ (if include_woodchips P then [woodchips_avail_spec P] else [])
        @ map (max_cost_spec P) (selected_products P)
        @ map (max_volume_spec P) (selected_products P)\<rparr>"

definition tables_complete :: "params \<Rightarrow> bool" where
  "tables_complete P =
     (\<forall>p \<in> set (selected_products P).
        (\<forall>f \<in> set (feedstocks P). pair_keys P p f)
        \<and> max_deliv_cost P p \<noteq> None \<and> max_volume P p \<noteq> None)"

text \<open>The detail table as a comprehension: one row per pair whose tonnage is material.\<close>

definition row_spec :: "params \<Rightarrow> (var \<Rightarrow> real option) \<Rightarrow> product \<Rightarrow> feedstock \<Rightarrow> row" where
  "row_spec P vv p f =
     \<lparr>Product = p,
      Feedstock = f,
      Allocated = round2 (value_or_zero (vv (f, p))),
      DeliveredCost = round2 (delivered_cost_per_ton P f p),
      Revenue = round2 (revenue_per_ton P f p),
      NetMargin = round2 (net_margin_per_ton P f p),
      ProcessingCost = round2 (the (processing_cost P p)),
      Depreciation = round2 (the (depreciation_per_ton P p)),
      TotalDeliveredCost = round2 (delivered_cost_per_ton P f p * value_or_zero (vv (f, p))),
      TotalRevenue = round2 (revenue_per_ton P f p * value_or_zero (vv (f, p))),
      TotalNetMargin = round2 (net_margin_per_ton P f p * value_or_zero (vv (f, p)))\<rparr>"

definition material :: "(var \<Rightarrow> real option) \<Rightarrow> product \<times> feedstock \<Rightarrow> bool" where
  "material vv = (\<lambda>(p, f). 1 / 1000000 \<le> value_or_zero (vv (f, p)))"

definition rows_spec :: "params \<Rightarrow> (var \<Rightarrow> real option) \<Rightarrow> row list" where
  "rows_spec P vv = map (\<lambda>(p, f). row_spec P vv p f) (filter (material vv) (all_pairs P))"

text \<open>
  The variables that stay in the objective are those of the pairs with a non-zero net
  margin per ton. The returned total is the value of the objective at the solver's
  values when there is such a variable and each of them has a value, and \<^verbatim>\<open>None\<close>
  otherwise.
\<close>

definition priced_keys :: "params \<Rightarrow> var list" where
  "priced_keys P =
     map (\<lambda>(p, f). (f, p)) (filter (\<lambda>(p, f). net_margin_per_ton P f p \<noteq> 0) (all_pairs P))"

definition total_spec :: "params \<Rightarrow> (var \<Rightarrow> real option) \<Rightarrow> real option" where
  "total_spec P vv =
     (if priced_keys P = [] \<or> (\<exists>v \<in> set (priced_keys P). vv v = None) then None
      else Some (\<Sum>(p, f) \<leftarrow> all_pairs P. net_margin_per_ton P f p * value_or_zero (vv (f, p))))"

section \<open>What a correct solver returns\<close>

text \<open>
  The contract of the LP solver on one problem: a reported \<open>Optimal\<close> status comes with
  the values of an optimal solution, and a problem that has an optimal solution is
  reported \<open>Optimal\<close>.
\<close>

definition returns_optimum :: "solver \<Rightarrow> lp_problem \<Rightarrow> bool" where
  "returns_optimum slv lp =
     (\<exists>q. is_optimum lp q \<and> (\<forall>v \<in> set (variables lp). varValue (slv lp) v = Some (q v)))"

definition solver_correct_on :: "solver \<Rightarrow> lp_problem \<Rightarrow> bool" where
  "solver_correct_on slv lp =
     ((status (slv lp) = Optimal \<longrightarrow> returns_optimum slv lp)
      \<and> ((\<exists>q. is_optimum lp q) \<longrightarrow> status (slv lp) = Optimal))"

section \<open>Concrete inputs\<close>

text \<open>
  Scenario A of the specification: the single product Biochar, slash only. The woodchips
  tables are empty: with woodchips inactive they are never read.
\<close>

definition scenario_A :: params where
  "scenario_A =
     \<lparr>slash_avail = 1000,
      woodchips_avail = 0,
      include_woodchips = False,
      selected_products = [''Biochar''],
      max_volume = [''Biochar'' \<mapsto> 999999],
      processing_cost = [''Biochar'' \<mapsto> 10],
      depreciation_per_ton = [''Biochar'' \<mapsto> 0],
      slash_harvest_cost = [''Biochar'' \<mapsto> 25],
      slash_transport_cost = [''Biochar'' \<mapsto> 30],
      slash_wood_cost = [''Biochar'' \<mapsto> 0],
      slash_carbon_credit = [''Biochar'' \<mapsto> 15],
      woodchips_harvest_cost = Map.empty,
      woodchips_transport_cost = Map.empty,
      woodchips_wood_cost = Map.empty,
      woodchips_carbon_credit = Map.empty,
      market_price = [''Biochar'' \<mapsto> 150],
      max_deliv_cost = [''Biochar'' \<mapsto> 130],
      reg_factor = 1 / 5\<rparr>"

text \<open>A solver that reports the given status and the given value for every variable.\<close>

definition fixed_solver :: "lp_status \<Rightarrow> real option \<Rightarrow> solver" where
  "fixed_solver st x = (\<lambda>lp. \<lparr>status = st, varValue = (\<lambda>v. x)\<rparr>)"

text \<open>Scenario B of the specification: scenario A with a cost cap of 50.\<close>

definition scenario_B :: params where
  "scenario_B = scenario_A\<lparr>max_deliv_cost := [''Biochar'' \<mapsto> 50]\<rparr>"

text \<open>The line item of scenario A.\<close>

definition scenario_A_row :: row where
  "scenario_A_row =
     \<lparr>Product = ''Biochar'',
      Feedstock = ''slash'',
      Allocated = 1000,
      DeliveredCost = 76,
      Revenue = 165,
      NetMargin = 89,
      ProcessingCost = 10,
      Depreciation = 0,
      TotalDeliveredCost = 76000,
      TotalRevenue = 165000,
      TotalNetMargin = 89000\<rparr>"

text \<open>
  Scenario A with a slash availability of exactly 1e-6 tons, and its line item: the
  tonnage and the three totals round to 0.
\<close>

definition threshold_params :: params where
  "threshold_params = scenario_A\<lparr>slash_avail := 1 / 1000000\<rparr>"

definition threshold_row :: row where
  "threshold_row =
     \<lparr>Product = ''Biochar'',
      Feedstock = ''slash'',
      Allocated = 0,
      DeliveredCost = 76,
      Revenue = 165,
      NetMargin = 89,
      ProcessingCost = 10,
      Depreciation = 0,
      TotalDeliveredCost = 0,
      TotalRevenue = 0,
      TotalNetMargin = 0\<rparr>"

text \<open>A solver that reports the given status and the given table of values.\<close>

definition table_solver :: "lp_status \<Rightarrow> (var \<Rightarrow> real option) \<Rightarrow> solver" where
  "table_solver st tab = (\<lambda>lp. \<lparr>status = st, varValue = tab\<rparr>)"

text \<open>
  Scenario A with woodchips active: 500 tons of woodchips at a delivered cost of 64 and a
  net margin of 86 per ton. Its optimum takes both feedstocks up to their availability.
\<close>

definition scenario_W :: params where
  "scenario_W =
     scenario_A
       \<lparr>woodchips_avail := 500,
        include_woodchips := True,
        woodchips_harvest_cost := [''Biochar'' \<mapsto> 20],
        woodchips_transport_cost := [''Biochar'' \<mapsto> 25],
        woodchips_wood_cost := [''Biochar'' \<mapsto> 0],
        woodchips_carbon_credit := [''Biochar'' \<mapsto> 0]\<rparr>"

definition scenario_W_values :: "var \<Rightarrow> real option" where
  "scenario_W_values =
     [(''slash'', ''Biochar'') \<mapsto> 1000, (''woodchips'', ''Biochar'') \<mapsto> 500]"










section \<open>Properties of the builder\<close>

lemma obj_term_eq:
  "obj_term P p f =
     (if pair_keys P p f then Inr (LpScale (net_margin_per_ton P f p) (LpVar (f, p)))
      else Inl (KeyError p))"
  by (auto simp: obj_term_def pair_keys_def cost_keys_def net_margin_per_ton_def
        revenue_per_ton_def delivered_cost_per_ton_def base_cost_def carbon_credit_def
        getitem_def ebind_def split: option.splits)

lemma c_deliver_eq:
  "c_deliver P p f =
     (if cost_keys P p f then Inr (delivered_cost_per_ton P f p) else Inl (KeyError p))"
  by (auto simp: c_deliver_def cost_keys_def delivered_cost_per_ton_def base_cost_def
        getitem_def ebind_def split: option.splits)

lemma ebind_Inr: "ebind (Inr x) f = f x"
  by (simp add: ebind_def)

lemma ebind_Inl: "ebind (Inl e) f = Inl e"
  by (simp add: ebind_def)

lemma for_each_Inr:
  "(\<And>x acc. x \<in> set xs \<Longrightarrow> body x acc = Inr (acc @ H x)) \<Longrightarrow>
   for_each xs body acc = Inr (acc @ concat (map H xs))"
  by (induction xs arbitrary: acc) simp_all

lemma for_each_InrD:
  "for_each xs body acc = Inr r \<Longrightarrow> x \<in> set xs \<Longrightarrow> \<exists>a r'. body x a = Inr r'"
proof (induction xs arbitrary: acc)
  case Nil
  then show ?case by simp
next
  case (Cons y ys)
  then show ?case
    by (cases "body y acc") (auto split: sum.splits)
qed

lemma in_Q_keys: "(f, p) \<in> set (Q_keys P) \<longleftrightarrow> f \<in> set (feedstocks P) \<and> p \<in> set (selected_products P)"
  by (auto simp: Q_keys_def)

lemma slash_in_feedstocks: "''slash'' \<in> set (feedstocks P)"
  by (simp add: feedstocks_def)

lemma woodchips_in_feedstocks: "include_woodchips P \<Longrightarrow> ''woodchips'' \<in> set (feedstocks P)"
  by (simp add: feedstocks_def)

lemma slash_avail_constraint_eq: "slash_avail_constraint P = slash_avail_spec P"
proof -
  have "filter (\<lambda>p. (''slash'', p) \<in> set (Q_keys P)) (selected_products P) = selected_products P"
    by (simp add: in_Q_keys slash_in_feedstocks)
  then show ?thesis
    by (simp add: slash_avail_constraint_def slash_avail_spec_def)
qed

lemma woodchips_avail_constraint_eq:
  assumes "include_woodchips P"
  shows "woodchips_avail_constraint P = woodchips_avail_spec P"
proof -
  have "filter (\<lambda>p. (''woodchips'', p) \<in> set (Q_keys P)) (selected_products P)
        = selected_products P"
    using assms by (simp add: in_Q_keys woodchips_in_feedstocks)
  then show ?thesis
    by (simp add: woodchips_avail_constraint_def woodchips_avail_spec_def)
qed

lemma obj_inner_Inr:
  assumes "\<forall>f \<in> set (feedstocks P). pair_keys P p f"
  shows "for_each (feedstocks P) (\<lambda>f acc. ebind (obj_term P p f) (\<lambda>t. Inr (acc @ [t]))) acc
         = Inr (acc @ map (\<lambda>f. LpScale (net_margin_per_ton P f p) (LpVar (f, p))) (feedstocks P))"
proof -
  have "for_each (feedstocks P) (\<lambda>f acc. ebind (obj_term P p f) (\<lambda>t. Inr (acc @ [t]))) acc
        = Inr (acc @ concat (map (\<lambda>f. [LpScale (net_margin_per_ton P f p) (LpVar (f, p))])
                 (feedstocks P)))"
    by (rule for_each_Inr) (use assms in \<open>simp add: obj_term_eq ebind_def\<close>)
  then show ?thesis by simp
qed

lemma obj_terms_Inr:
  assumes "tables_complete P"
  shows "obj_terms P
         = Inr (map (\<lambda>(p, f). LpScale (net_margin_per_ton P f p) (LpVar (f, p))) (all_pairs P))"
proof -
  have "obj_terms P
        = Inr ([] @ concat (map (\<lambda>p. map (\<lambda>f. LpScale (net_margin_per_ton P f p) (LpVar (f, p)))
                 (feedstocks P)) (selected_products P)))"
    unfolding obj_terms_def
    by (rule for_each_Inr) (use assms in \<open>simp add: obj_inner_Inr tables_complete_def\<close>)
  then show ?thesis
    by (simp add: all_pairs_def map_concat comp_def)
qed

lemma max_cost_constraint_eq:
  assumes "p \<in> set (selected_products P)"
  shows "max_cost_constraint P p =
     (if (\<forall>f \<in> set (feedstocks P). cost_keys P p f) \<and> max_deliv_cost P p \<noteq> None
      then Inr (max_cost_spec P p) else Inl (KeyError p))"
  using assms
  by (cases "include_woodchips P")
     (auto simp: max_cost_constraint_def max_cost_spec_def in_Q_keys feedstocks_def
        c_deliver_eq ebind_def getitem_def split: option.splits)

lemma max_volume_constraint_eq:
  assumes "p \<in> set (selected_products P)"
  shows "max_volume_constraint P p =
     (if max_volume P p \<noteq> None then Inr (max_volume_spec P p) else Inl (KeyError p))"
proof -
  have "filter (\<lambda>f. (f, p) \<in> set (Q_keys P)) (feedstocks P) = feedstocks P"
    using assms by (simp add: in_Q_keys)
  then show ?thesis
    by (auto simp: max_volume_constraint_def max_volume_spec_def ebind_def getitem_def
          split: option.splits)
qed

lemma pair_keys_cost_keys: "pair_keys P p f \<Longrightarrow> cost_keys P p f"
  by (simp add: pair_keys_def)

lemma build_model_complete:
  assumes "tables_complete P"
  shows "build_model P = Inr (lp_spec P)"
proof -
  have a: "for_each (selected_products P)
              (\<lambda>p cs. ebind (max_cost_constraint P p) (\<lambda>c. Inr (cs @ [c]))) cs
           = Inr (cs @ concat (map (\<lambda>p. [max_cost_spec P p]) (selected_products P)))" for cs
    by (rule for_each_Inr)
       (use assms in \<open>simp add: max_cost_constraint_eq tables_complete_def ebind_def
          pair_keys_cost_keys\<close>)
  have b: "for_each (selected_products P)
              (\<lambda>p cs. ebind (max_volume_constraint P p) (\<lambda>c. Inr (cs @ [c]))) cs
           = Inr (cs @ concat (map (\<lambda>p. [max_volume_spec P p]) (selected_products P)))" for cs
    by (rule for_each_Inr)
       (use assms in \<open>simp add: max_volume_constraint_eq tables_complete_def ebind_def\<close>)
  show ?thesis
    unfolding build_model_def
    by (simp add: obj_terms_Inr [OF assms] a b ebind_Inr lp_spec_def objective_spec_def
          slash_avail_constraint_eq woodchips_avail_constraint_eq)
qed

lemma obj_terms_InrD:
  assumes "obj_terms P = Inr ts" and "p \<in> set (selected_products P)" and "f \<in> set (feedstocks P)"
  shows "pair_keys P p f"
proof -
  from for_each_InrD [OF assms(1) [unfolded obj_terms_def] assms(2)]
  obtain a r where "for_each (feedstocks P)
          (\<lambda>f acc. ebind (obj_term P p f) (\<lambda>t. Inr (acc @ [t]))) a = Inr r"
    by blast
  from for_each_InrD [OF this assms(3)]
  show ?thesis
    by (auto simp: obj_term_eq ebind_def split: if_splits)
qed

lemma build_model_InrD:
  assumes "build_model P = Inr lp"
  shows "tables_complete P"
proof -
  from assms obtain ts cs1 cs2 where
    o: "obj_terms P = Inr ts" and
    c1: "for_each (selected_products P)
              (\<lambda>p cs. ebind (max_cost_constraint P p) (\<lambda>c. Inr (cs @ [c])))
              ([slash_avail_constraint P] @
               (if include_woodchips P then [woodchips_avail_constraint P] else [])) = Inr cs1" and
    c2: "for_each (selected_products P)
              (\<lambda>p cs. ebind (max_volume_constraint P p) (\<lambda>c. Inr (cs @ [c]))) cs1 = Inr cs2"
    unfolding build_model_def ebind_def by (auto split: sum.splits)
  have "max_deliv_cost P p \<noteq> None" if "p \<in> set (selected_products P)" for p
    using for_each_InrD [OF c1 that] that
    by (auto simp: max_cost_constraint_eq ebind_def split: if_splits)
  moreover have "max_volume P p \<noteq> None" if "p \<in> set (selected_products P)" for p
    using for_each_InrD [OF c2 that] that
    by (auto simp: max_volume_constraint_eq ebind_def split: if_splits)
  ultimately show ?thesis
    unfolding tables_complete_def using obj_terms_InrD [OF o] by blast
qed

lemma build_model_iff: "build_model P = Inr lp \<longleftrightarrow> tables_complete P \<and> lp = lp_spec P"
  using build_model_complete build_model_InrD by fastforce

section \<open>Inactive woodchips inputs\<close>

lemma for_each_single: "for_each [x] body s = body x s"
  by (cases "body x s") simp_all

text \<open>
  Claim C9. When \<open>include_woodchips\<close> is false, the result of \<open>solve_biomass_model\<close>
  (the status, the line items and the total, or the error) does not depend on
  \<open>woodchips_avail\<close> nor on the four woodchips tables: replacing all five by arbitrary
  values leaves the result unchanged, for every solver. In particular no woodchips table
  is read, since a read of an empty table would be a \<open>KeyError\<close>.
\<close>

theorem inactive_woodchips_noninterference:
  assumes "\<not> include_woodchips P"
  shows "solve_biomass_model slv
           (P\<lparr>woodchips_avail := a, woodchips_harvest_cost := h, woodchips_transport_cost := t,
              woodchips_wood_cost := w, woodchips_carbon_credit := c\<rparr>)
         = solve_biomass_model slv P"
proof -
  define P' where "P' = P\<lparr>woodchips_avail := a, woodchips_harvest_cost := h,
    woodchips_transport_cost := t, woodchips_wood_cost := w, woodchips_carbon_credit := c\<rparr>"
  have fs: "feedstocks P' = [''slash'']" "feedstocks P = [''slash'']"
    using assms by (simp_all add: feedstocks_def P'_def)
  have sel: "selected_products P' = selected_products P"
    by (simp add: P'_def)
  have qk: "Q_keys P' = Q_keys P"
    by (simp add: Q_keys_def fs sel)
  have ot: "obj_term P' p ''slash'' = obj_term P p ''slash''" for p
    by (simp add: obj_term_def P'_def)
  have cd: "c_deliver P' p ''slash'' = c_deliver P p ''slash''" for p
    by (simp add: c_deliver_def P'_def)
  have dr: "detail_row P' vv p ''slash'' rows = detail_row P vv p ''slash'' rows" for vv p rows
    unfolding detail_row_def qk by (simp add: P'_def cong: if_cong)
  have obj: "obj_terms P' = obj_terms P"
    by (simp add: obj_terms_def fs sel ot for_each_single del: for_each.simps)
  have mc: "max_cost_constraint P' p = max_cost_constraint P p" for p
    unfolding max_cost_constraint_def qk fs
    by (simp add: cd for_each_single del: for_each.simps) (simp add: P'_def)
  have mv: "max_volume_constraint P' p = max_volume_constraint P p" for p
    unfolding max_volume_constraint_def qk fs by (simp add: P'_def)
  have sa: "slash_avail_constraint P' = slash_avail_constraint P"
    unfolding slash_avail_constraint_def qk sel by (simp add: P'_def)
  have iw: "\<not> include_woodchips P'"
    using assms by (simp add: P'_def)
  have bm: "build_model P' = build_model P"
    unfolding build_model_def obj mc mv sa sel qk using iw assms by simp
  have rows: "detail_rows P' vv = detail_rows P vv" for vv
    by (simp add: detail_rows_def fs sel dr for_each_single del: for_each.simps)
  show ?thesis
    unfolding P'_def [symmetric] solve_biomass_model_def bm rows ..
qed

theorem inactive_woodchips_noninterference_witness:
  "\<not> include_woodchips scenario_A \<and>
   solve_biomass_model (fixed_solver Optimal (Some 1000))
     (scenario_A\<lparr>woodchips_avail := 15000, woodchips_harvest_cost := [''Biochar'' \<mapsto> 20],
        woodchips_transport_cost := [''Biochar'' \<mapsto> 25],
        woodchips_wood_cost := [''Biochar'' \<mapsto> 0],
        woodchips_carbon_credit := [''Biochar'' \<mapsto> 0]\<rparr>)
   = solve_biomass_model (fixed_solver Optimal (Some 1000)) scenario_A"
proof -
  have h: "\<not> include_woodchips scenario_A"
    by (simp add: scenario_A_def)
  show ?thesis
    using h inactive_woodchips_noninterference [OF h] by simp
qed

section \<open>Properties of the row loop and of the whole function\<close>

lemma detail_row_eq:
  assumes "p \<in> set (selected_products P)" and "f \<in> set (feedstocks P)" and "pair_keys P p f"
  shows "detail_row P vv p f rows =
           Inr (rows @ map (\<lambda>(p, f). row_spec P vv p f) (filter (material vv) [(p, f)]))"
proof -
  have inq: "(f, p) \<in> set (Q_keys P)"
    using assms by (simp add: in_Q_keys)
  from assms(3) obtain pc dep mp where
    g: "processing_cost P p = Some pc" "depreciation_per_ton P p = Some dep"
       "market_price P p = Some mp"
    by (auto simp: pair_keys_def cost_keys_def)
  show ?thesis
  proof (cases "f = ''slash''")
    case True
    with assms(3) obtain h t w c where
      s: "slash_harvest_cost P p = Some h" "slash_transport_cost P p = Some t"
         "slash_wood_cost P p = Some w" "slash_carbon_credit P p = Some c"
      by (auto simp: pair_keys_def cost_keys_def)
    show ?thesis
      using inq True
      by (simp add: detail_row_def row_spec_def material_def g s getitem_def ebind_def Let_def
            net_margin_per_ton_def revenue_per_ton_def delivered_cost_per_ton_def base_cost_def
            carbon_credit_def not_less)
  next
    case False
    with assms(3) obtain h t w c where
      s: "woodchips_harvest_cost P p = Some h" "woodchips_transport_cost P p = Some t"
         "woodchips_wood_cost P p = Some w" "woodchips_carbon_credit P p = Some c"
      by (auto simp: pair_keys_def cost_keys_def)
    show ?thesis
      using inq False
      by (simp add: detail_row_def row_spec_def material_def g s getitem_def ebind_def Let_def
            net_margin_per_ton_def revenue_per_ton_def delivered_cost_per_ton_def base_cost_def
            carbon_credit_def not_less)
  qed
qed

lemma concat_map_filter_single:
  "concat (map (\<lambda>x. map g (filter E [h x])) xs) = map g (filter E (map h xs))"
  by (induction xs) simp_all

lemma detail_inner_Inr:
  assumes "p \<in> set (selected_products P)" and "\<forall>f \<in> set (feedstocks P). pair_keys P p f"
  shows "for_each (feedstocks P) (\<lambda>f rows. detail_row P vv p f rows) rows
         = Inr (rows @ map (\<lambda>(p, f). row_spec P vv p f)
                   (filter (material vv) (map (\<lambda>f. (p, f)) (feedstocks P))))"
proof -
  have "for_each (feedstocks P) (\<lambda>f rows. detail_row P vv p f rows) rows
        = Inr (rows @ concat (map (\<lambda>f. map (\<lambda>(p, f). row_spec P vv p f)
                   (filter (material vv) [(p, f)])) (feedstocks P)))"
    by (rule for_each_Inr) (use assms in \<open>simp only: detail_row_eq\<close>)
  then show ?thesis
    by (simp only: concat_map_filter_single)
qed

lemma detail_rows_complete:
  assumes "tables_complete P"
  shows "detail_rows P vv = Inr (rows_spec P vv)"
proof -
  have "detail_rows P vv
        = Inr ([] @ concat (map (\<lambda>p. map (\<lambda>(p, f). row_spec P vv p f)
                   (filter (material vv) (map (\<lambda>f. (p, f)) (feedstocks P))))
                 (selected_products P)))"
    unfolding detail_rows_def
    by (rule for_each_Inr) (use assms in \<open>simp add: detail_inner_Inr tables_complete_def\<close>)
  then show ?thesis
    by (simp add: rows_spec_def all_pairs_def map_concat filter_concat comp_def)
qed

lemma eval_objective_spec:
  "eval q (objective_spec P) = (\<Sum>(p, f) \<leftarrow> all_pairs P. net_margin_per_ton P f p * q (f, p))"
  by (simp add: objective_spec_def comp_def case_prod_unfold)

lemma vars_of_objective_spec: "vars_of (objective_spec P) = priced_keys P"
proof -
  have "concat (map (\<lambda>(p, f). vars_of (LpScale (g p f) (LpVar (f, p)))) xs)
        = map (\<lambda>(p, f). (f, p)) (filter (\<lambda>(p, f). g p f \<noteq> 0) xs)"
    for g :: "product \<Rightarrow> feedstock \<Rightarrow> real" and xs
    by (induction xs) auto
  then show ?thesis
    by (simp add: objective_spec_def priced_keys_def comp_def case_prod_unfold)
qed

lemma has_dummy_objective_spec: "\<not> has_dummy (objective_spec P)"
  by (auto simp: objective_spec_def)

lemma total_net_revenue_eq:
  "(if lp_truthy (solved_objective (objective_spec P))
    then lp_value vv (solved_objective (objective_spec P)) else Some 0)
   = total_spec P vv"
proof (cases "priced_keys P = []")
  case True
  then show ?thesis
    by (simp add: solved_objective_def vars_of_objective_spec lp_truthy_def lp_value_def
          total_spec_def)
next
  case False
  then show ?thesis
    by (simp add: solved_objective_def vars_of_objective_spec has_dummy_objective_spec
          lp_truthy_def lp_value_def total_spec_def eval_objective_spec)
qed

lemma solve_complete:
  assumes "tables_complete P"
  shows "solve_biomass_model slv P =
           Inr (LpStatus (status (slv (lp_spec P))),
                rows_spec P (varValue (slv (lp_spec P))),
                total_spec P (varValue (slv (lp_spec P))))"
proof -
  have "objective (lp_spec P) = objective_spec P"
    by (simp add: lp_spec_def)
  then show ?thesis
    unfolding solve_biomass_model_def build_model_complete [OF assms] ebind_Inr Let_def
      detail_rows_complete [OF assms]
    by (simp only: total_net_revenue_eq)
qed

lemma solve_InrD:
  assumes "solve_biomass_model slv P = Inr r"
  shows "tables_complete P"
proof (cases "build_model P")
  case (Inl e)
  with assms show ?thesis by (simp add: solve_biomass_model_def ebind_Inl)
next
  case (Inr lp)
  then show ?thesis by (rule build_model_InrD)
qed



section \<open>The claims\<close>

lemma scenario_A_complete: "tables_complete scenario_A"
  by (simp add: tables_complete_def scenario_A_def feedstocks_def pair_keys_def cost_keys_def)

lemma in_rows_spec:
  "r \<in> set (rows_spec P vv) \<Longrightarrow>
   \<exists>p f. (p, f) \<in> set (all_pairs P) \<and> material vv (p, f) \<and> r = row_spec P vv p f"
  by (auto simp: rows_spec_def)

text \<open>
  Claim C1. Whenever the model is built and the row loop returns, the objective is the
  sum over the active (product, feedstock) pairs of \<open>net_margin_per_ton\<close> times the
  pair's variable, and every emitted row carries the 2-decimal rounding of the pair's
  \<open>delivered_cost_per_ton\<close>, \<open>revenue_per_ton\<close> and \<open>net_margin_per_ton\<close>, where
  delivered cost = (harvest + transport + wood) * (1 + reg_factor) + processing +
  depreciation, revenue = market price + carbon credit, net margin = revenue - delivered
  cost, the harvest, transport, wood and credit values read from the slash tables for
  slash and from the woodchips tables otherwise (\<open>base_cost\<close>, \<open>carbon_credit\<close>).
\<close>

theorem per_ton_figures:
  assumes "build_model P = Inr model" and "detail_rows P vv = Inr rows"
  shows "objective model =
           LpSum (map (\<lambda>(p, f). LpScale (net_margin_per_ton P f p) (LpVar (f, p))) (all_pairs P))
         \<and> (\<forall>r \<in> set rows.
              DeliveredCost r = round2 (delivered_cost_per_ton P (Feedstock r) (Product r))
              \<and> Revenue r = round2 (revenue_per_ton P (Feedstock r) (Product r))
              \<and> NetMargin r = round2 (net_margin_per_ton P (Feedstock r) (Product r)))
         \<and> (\<forall>f p. delivered_cost_per_ton P f p =
                base_cost P f p * (1 + reg_factor P) + the (processing_cost P p)
                + the (depreciation_per_ton P p)
              \<and> revenue_per_ton P f p = the (market_price P p) + carbon_credit P f p
              \<and> net_margin_per_ton P f p = revenue_per_ton P f p - delivered_cost_per_ton P f p)"
proof -
  have tc: "tables_complete P"
    using assms(1) by (rule build_model_InrD)
  have m: "model = lp_spec P"
    using assms(1) build_model_complete [OF tc] by simp
  have r: "rows = rows_spec P vv"
    using assms(2) detail_rows_complete [OF tc, of vv] by simp
  have "objective model =
           LpSum (map (\<lambda>(p, f). LpScale (net_margin_per_ton P f p) (LpVar (f, p))) (all_pairs P))"
    by (simp add: m lp_spec_def objective_spec_def)
  moreover have "DeliveredCost x = round2 (delivered_cost_per_ton P (Feedstock x) (Product x))
              \<and> Revenue x = round2 (revenue_per_ton P (Feedstock x) (Product x))
              \<and> NetMargin x = round2 (net_margin_per_ton P (Feedstock x) (Product x))"
    if "x \<in> set rows" for x
  proof -
    from that obtain p f where "x = row_spec P vv p f"
      unfolding r by (blast dest: in_rows_spec)
    then show ?thesis by (simp add: row_spec_def)
  qed
  ultimately show ?thesis
    by (simp add: delivered_cost_per_ton_def revenue_per_ton_def net_margin_per_ton_def)
qed

theorem per_ton_figures_witness:
  "build_model scenario_A = Inr (lp_spec scenario_A)
   \<and> detail_rows scenario_A (\<lambda>v. Some 1000) = Inr (rows_spec scenario_A (\<lambda>v. Some 1000))
   \<and> objective (lp_spec scenario_A) = LpSum [LpScale 89 (LpVar (''slash'', ''Biochar''))]
   \<and> map DeliveredCost (rows_spec scenario_A (\<lambda>v. Some 1000)) = [76]
   \<and> map Revenue (rows_spec scenario_A (\<lambda>v. Some 1000)) = [165]
   \<and> map NetMargin (rows_spec scenario_A (\<lambda>v. Some 1000)) = [89]"
proof -
  have b: "build_model scenario_A = Inr (lp_spec scenario_A)"
    by (rule build_model_complete [OF scenario_A_complete])
  have d: "detail_rows scenario_A (\<lambda>v. Some 1000) = Inr (rows_spec scenario_A (\<lambda>v. Some 1000))"
    by (rule detail_rows_complete [OF scenario_A_complete])
  have ap: "all_pairs scenario_A = [(''Biochar'', ''slash'')]"
    by (simp add: all_pairs_def feedstocks_def scenario_A_def)
  have rs: "rows_spec scenario_A (\<lambda>v. Some 1000)
            = [row_spec scenario_A (\<lambda>v. Some 1000) ''Biochar'' ''slash'']"
    by (simp add: rows_spec_def ap material_def value_or_zero_def)
  have dc: "delivered_cost_per_ton scenario_A ''slash'' ''Biochar'' = 76"
    by (simp add: delivered_cost_per_ton_def base_cost_def scenario_A_def)
  have rv: "revenue_per_ton scenario_A ''slash'' ''Biochar'' = 165"
    by (simp add: revenue_per_ton_def carbon_credit_def scenario_A_def)
  have nm: "net_margin_per_ton scenario_A ''slash'' ''Biochar'' = 89"
    by (simp add: net_margin_per_ton_def dc rv)
  have r76: "round2 76 = 76" and r165: "round2 165 = 165" and r89: "round2 89 = 89"
    by (simp_all add: round2_def)
  have o: "objective (lp_spec scenario_A) = LpSum [LpScale 89 (LpVar (''slash'', ''Biochar''))]"
    using per_ton_figures [OF b d, THEN conjunct1] by (simp add: ap nm)
  show ?thesis
    using b d o by (simp add: rs nm dc rv r76 r165 r89 row_spec_def)
qed

lemma satisfies_slash_avail:
  "satisfies q (slash_avail_spec P)
   \<longleftrightarrow> (\<Sum>p \<leftarrow> selected_products P. q (''slash'', p)) \<le> slash_avail P"
  by (simp add: satisfies_def slash_avail_spec_def comp_def)

lemma satisfies_woodchips_avail:
  "satisfies q (woodchips_avail_spec P)
   \<longleftrightarrow> (\<Sum>p \<leftarrow> selected_products P. q (''woodchips'', p)) \<le> woodchips_avail P"
  by (simp add: satisfies_def woodchips_avail_spec_def comp_def)

lemma satisfies_max_cost:
  "satisfies q (max_cost_spec P p)
   \<longleftrightarrow> (\<Sum>f \<leftarrow> feedstocks P. delivered_cost_per_ton P f p * q (f, p))
       \<le> the (max_deliv_cost P p) * (\<Sum>f \<leftarrow> feedstocks P. q (f, p))"
  by (simp add: satisfies_def max_cost_spec_def comp_def)

lemma satisfies_max_volume:
  "satisfies q (max_volume_spec P p)
   \<longleftrightarrow> (\<Sum>f \<leftarrow> feedstocks P. q (f, p)) \<le> the (max_volume P p)"
  by (simp add: satisfies_def max_volume_spec_def comp_def)

lemma feasible_lp_spec:
  "feasible (lp_spec P) q \<longleftrightarrow>
     (\<forall>v \<in> set (Q_keys P). 0 \<le> q v)
     \<and> satisfies q (slash_avail_spec P)
     \<and> (include_woodchips P \<longrightarrow> satisfies q (woodchips_avail_spec P))
     \<and> (\<forall>p \<in> set (selected_products P). satisfies q (max_cost_spec P p))
     \<and> (\<forall>p \<in> set (selected_products P). satisfies q (max_volume_spec P p))"
  by (auto simp: feasible_def lp_spec_def)

lemma filter_eq_distinct:
  "distinct xs \<Longrightarrow> x \<in> set xs \<Longrightarrow> filter (\<lambda>y. y = x) xs = [x]"
  by (induction xs) (auto simp: filter_empty_conv)

lemma sum_list_zero_terms:
  "(\<And>x. x \<in> set xs \<Longrightarrow> g x = (0::real)) \<Longrightarrow> sum_list (map g xs) = 0"
  by (induction xs) simp_all

lemma max_cost_names:
  "filter (\<lambda>c. c_name c = ''MaxDeliveredCost_'' @ p) (constraints (lp_spec P))
   = map (max_cost_spec P) (filter (\<lambda>y. y = p) (selected_products P))"
proof -
  define N :: "lp_constraint \<Rightarrow> bool" where "N = (\<lambda>c. c_name c = ''MaxDeliveredCost_'' @ p)"
  have a: "filter N (map (max_cost_spec P) ps) = map (max_cost_spec P) (filter (\<lambda>y. y = p) ps)"
    for ps
    by (induction ps) (simp_all add: max_cost_spec_def N_def)
  have b: "filter N (map (max_volume_spec P) ps) = []" for ps
    by (induction ps) (simp_all add: max_volume_spec_def N_def)
  have s: "\<not> N (slash_avail_spec P)" and w: "\<not> N (woodchips_avail_spec P)"
    by (simp_all add: slash_avail_spec_def woodchips_avail_spec_def N_def)
  have "filter N (constraints (lp_spec P))
        = map (max_cost_spec P) (filter (\<lambda>y. y = p) (selected_products P))"
    by (simp add: lp_spec_def a b s w)
  then show ?thesis
    by (simp only: N_def)
qed

text \<open>
  Claim C2. For distinct selected products, the built problem holds exactly one constraint
  named \<open>MaxDeliveredCost_p\<close> for each selected product \<open>p\<close>; it is satisfied exactly
  when the sum over the active feedstocks of \<open>delivered_cost_per_ton * Q[f, p]\<close> is at
  most \<open>max_deliv_cost[p]\<close> times the sum over the active feedstocks of \<open>Q[f, p]\<close>, and
  it is satisfied when every \<open>Q[f, p]\<close> of the product is zero. The cap is a linear
  constraint of the problem handed to the solver.
\<close>

theorem max_delivered_cost_constraint:
  assumes "build_model P = Inr model"
    and "distinct (selected_products P)"
    and "p \<in> set (selected_products P)"
  shows "\<exists>c. filter (\<lambda>c. c_name c = ''MaxDeliveredCost_'' @ p) (constraints model) = [c]
          \<and> (\<forall>q. satisfies q c \<longleftrightarrow>
                 (\<Sum>f \<leftarrow> feedstocks P. delivered_cost_per_ton P f p * q (f, p))
                 \<le> the (max_deliv_cost P p) * (\<Sum>f \<leftarrow> feedstocks P. q (f, p)))
          \<and> (\<forall>q. (\<forall>f \<in> set (feedstocks P). q (f, p) = 0) \<longrightarrow> satisfies q c)"
proof -
  have tc: "tables_complete P"
    using assms(1) by (rule build_model_InrD)
  have m: "model = lp_spec P"
    using assms(1) build_model_complete [OF tc] by simp
  have f: "filter (\<lambda>c. c_name c = ''MaxDeliveredCost_'' @ p) (constraints model)
           = [max_cost_spec P p]"
    unfolding m max_cost_names by (simp add: filter_eq_distinct [OF assms(2,3)])
  have z: "satisfies q (max_cost_spec P p)" if "\<forall>f \<in> set (feedstocks P). q (f, p) = 0" for q
  proof -
    have "(\<Sum>f \<leftarrow> feedstocks P. delivered_cost_per_ton P f p * q (f, p)) = 0"
      by (rule sum_list_zero_terms) (use that in simp)
    moreover have "(\<Sum>f \<leftarrow> feedstocks P. q (f, p)) = 0"
      by (rule sum_list_zero_terms) (use that in simp)
    ultimately show ?thesis
      by (simp add: satisfies_max_cost)
  qed
  show ?thesis
    using f z satisfies_max_cost by blast
qed

theorem max_delivered_cost_constraint_witness:
  "build_model scenario_A = Inr (lp_spec scenario_A)
   \<and> distinct (selected_products scenario_A)
   \<and> ''Biochar'' \<in> set (selected_products scenario_A)
   \<and> filter (\<lambda>c. c_name c = ''MaxDeliveredCost_Biochar'') (constraints (lp_spec scenario_A))
       = [max_cost_spec scenario_A ''Biochar'']
   \<and> satisfies (\<lambda>v. 0) (max_cost_spec scenario_A ''Biochar'')"
proof -
  have b: "build_model scenario_A = Inr (lp_spec scenario_A)"
    by (rule build_model_complete [OF scenario_A_complete])
  have d: "distinct (selected_products scenario_A)"
    and i: "''Biochar'' \<in> set (selected_products scenario_A)"
    by (simp_all add: scenario_A_def)
  have f: "filter (\<lambda>c. c_name c = ''MaxDeliveredCost_'' @ ''Biochar'')
             (constraints (lp_spec scenario_A)) = [max_cost_spec scenario_A ''Biochar'']"
    unfolding max_cost_names by (simp add: scenario_A_def)
  from max_delivered_cost_constraint [OF b d i] obtain c where
    c: "filter (\<lambda>c. c_name c = ''MaxDeliveredCost_'' @ ''Biochar'')
          (constraints (lp_spec scenario_A)) = [c]"
    and z: "\<forall>q. (\<forall>f \<in> set (feedstocks scenario_A). q (f, ''Biochar'') = 0) \<longrightarrow> satisfies q c"
    by blast
  from c f have "c = max_cost_spec scenario_A ''Biochar''"
    by simp
  with z have "satisfies (\<lambda>v. 0) (max_cost_spec scenario_A ''Biochar'')"
    by simp
  with b d i f show ?thesis
    by simp
qed

lemma scenario_A_feasible:
  "feasible (lp_spec scenario_A) q \<longleftrightarrow>
     0 \<le> q (''slash'', ''Biochar'') \<and> q (''slash'', ''Biochar'') \<le> 1000"
  by (auto simp: feasible_lp_spec satisfies_slash_avail satisfies_max_cost satisfies_max_volume
        Q_keys_def feedstocks_def delivered_cost_per_ton_def base_cost_def scenario_A_def)

lemma scenario_A_objective:
  "eval q (objective (lp_spec scenario_A)) = 89 * q (''slash'', ''Biochar'')"
  by (simp add: lp_spec_def eval_objective_spec all_pairs_def feedstocks_def
        net_margin_per_ton_def revenue_per_ton_def carbon_credit_def
        delivered_cost_per_ton_def base_cost_def scenario_A_def)

lemma scenario_A_optimum:
  "is_optimum (lp_spec scenario_A) q \<longleftrightarrow>
     q (''slash'', ''Biochar'') = 1000"
proof
  assume o: "is_optimum (lp_spec scenario_A) q"
  have "feasible (lp_spec scenario_A) (\<lambda>v. 1000)"
    by (simp add: scenario_A_feasible)
  with o have "89 * (1000::real) \<le> 89 * q (''slash'', ''Biochar'')"
    unfolding is_optimum_def scenario_A_objective by blast
  moreover from o have "q (''slash'', ''Biochar'') \<le> 1000"
    by (simp add: is_optimum_def scenario_A_feasible)
  ultimately show "q (''slash'', ''Biochar'') = 1000"
    by simp
next
  assume "q (''slash'', ''Biochar'') = 1000"
  then show "is_optimum (lp_spec scenario_A) q"
    by (simp add: is_optimum_def scenario_A_feasible scenario_A_objective)
qed

lemma variables_scenario_A: "variables (lp_spec scenario_A) = [(''slash'', ''Biochar'')]"
  by (simp add: lp_spec_def Q_keys_def feedstocks_def scenario_A_def)

lemma fixed_solver_correct_A:
  "solver_correct_on (fixed_solver Optimal (Some 1000)) (lp_spec scenario_A)"
proof -
  have "is_optimum (lp_spec scenario_A) (\<lambda>v. 1000)"
    by (simp add: scenario_A_optimum)
  then have "returns_optimum (fixed_solver Optimal (Some 1000)) (lp_spec scenario_A)"
    unfolding returns_optimum_def by (intro exI [of _ "\<lambda>v. 1000"]) (simp add: fixed_solver_def)
  then show ?thesis
    by (simp add: solver_correct_on_def fixed_solver_def)
qed

lemma sum_list_map_cong_set:
  "(\<And>x. x \<in> set xs \<Longrightarrow> g x = h x) \<Longrightarrow> sum_list (map g xs) = sum_list (map h xs)"
  by (induction xs) simp_all

lemma scenario_W_family_complete:
  "tables_complete (scenario_W\<lparr>slash_avail := a, woodchips_avail := w\<rparr>)"
  by (simp add: tables_complete_def pair_keys_def cost_keys_def feedstocks_def scenario_W_def
        scenario_A_def)

lemma scenario_W_family_pairs:
  "all_pairs (scenario_W\<lparr>slash_avail := a, woodchips_avail := w\<rparr>)
   = [(''Biochar'', ''slash''), (''Biochar'', ''woodchips'')]"
  "Q_keys (scenario_W\<lparr>slash_avail := a, woodchips_avail := w\<rparr>)
   = [(''slash'', ''Biochar''), (''woodchips'', ''Biochar'')]"
  by (simp_all add: all_pairs_def Q_keys_def feedstocks_def scenario_W_def scenario_A_def)

lemma scenario_W_family_figures:
  "delivered_cost_per_ton (scenario_W\<lparr>slash_avail := a, woodchips_avail := w\<rparr>)
     ''slash'' ''Biochar'' = 76"
  "revenue_per_ton (scenario_W\<lparr>slash_avail := a, woodchips_avail := w\<rparr>)
     ''slash'' ''Biochar'' = 165"
  "net_margin_per_ton (scenario_W\<lparr>slash_avail := a, woodchips_avail := w\<rparr>)
     ''slash'' ''Biochar'' = 89"
  "delivered_cost_per_ton (scenario_W\<lparr>slash_avail := a, woodchips_avail := w\<rparr>)
     ''woodchips'' ''Biochar'' = 64"
  "revenue_per_ton (scenario_W\<lparr>slash_avail := a, woodchips_avail := w\<rparr>)
     ''woodchips'' ''Biochar'' = 150"
  "net_margin_per_ton (scenario_W\<lparr>slash_avail := a, woodchips_avail := w\<rparr>)
     ''woodchips'' ''Biochar'' = 86"
  by (simp_all add: net_margin_per_ton_def revenue_per_ton_def carbon_credit_def
        delivered_cost_per_ton_def base_cost_def scenario_W_def scenario_A_def)

lemma scenario_W_fields:
  "selected_products scenario_W = [''Biochar'']"
  "include_woodchips scenario_W"
  "slash_avail scenario_W = 1000"
  "woodchips_avail scenario_W = 500"
  "max_deliv_cost scenario_W ''Biochar'' = Some 130"
  "max_volume scenario_W ''Biochar'' = Some 999999"
  by (simp_all add: scenario_W_def scenario_A_def)

lemma scenario_W_family_feasible:
  assumes "a + w \<le> 999999"
  shows "feasible (lp_spec (scenario_W\<lparr>slash_avail := a, woodchips_avail := w\<rparr>)) q \<longleftrightarrow>
           0 \<le> q (''slash'', ''Biochar'') \<and> q (''slash'', ''Biochar'') \<le> a
           \<and> 0 \<le> q (''woodchips'', ''Biochar'') \<and> q (''woodchips'', ''Biochar'') \<le> w"
proof -
  have "feasible (lp_spec (scenario_W\<lparr>slash_avail := a, woodchips_avail := w\<rparr>)) q \<longleftrightarrow>
          0 \<le> q (''slash'', ''Biochar'') \<and> 0 \<le> q (''woodchips'', ''Biochar'')
          \<and> q (''slash'', ''Biochar'') \<le> a \<and> q (''woodchips'', ''Biochar'') \<le> w
          \<and> 76 * q (''slash'', ''Biochar'') + 64 * q (''woodchips'', ''Biochar'')
              \<le> 130 * (q (''slash'', ''Biochar'') + q (''woodchips'', ''Biochar''))
          \<and> q (''slash'', ''Biochar'') + q (''woodchips'', ''Biochar'') \<le> 999999"
    unfolding feasible_lp_spec satisfies_slash_avail satisfies_woodchips_avail
      satisfies_max_cost satisfies_max_volume scenario_W_family_pairs
    by (simp add: scenario_W_family_figures scenario_W_fields feedstocks_def)
  with assms show ?thesis
    by auto
qed

lemma scenario_W_family_objective:
  "eval q (objective (lp_spec (scenario_W\<lparr>slash_avail := a, woodchips_avail := w\<rparr>)))
   = 89 * q (''slash'', ''Biochar'') + 86 * q (''woodchips'', ''Biochar'')"
  by (simp add: lp_spec_def eval_objective_spec scenario_W_family_pairs
        scenario_W_family_figures)

lemma scenario_W_family_optimum:
  assumes "0 \<le> a" and "0 \<le> w" and "a + w \<le> 999999"
  shows "is_optimum (lp_spec (scenario_W\<lparr>slash_avail := a, woodchips_avail := w\<rparr>)) q \<longleftrightarrow>
           q (''slash'', ''Biochar'') = a \<and> q (''woodchips'', ''Biochar'') = w"
proof
  let ?lp = "lp_spec (scenario_W\<lparr>slash_avail := a, woodchips_avail := w\<rparr>)"
  let ?top = "\<lambda>v :: var. if fst v = ''slash'' then a else w"
  assume o: "is_optimum ?lp q"
  have "feasible ?lp ?top"
    using assms by (simp add: scenario_W_family_feasible)
  with o have "eval ?top (objective ?lp) \<le> eval q (objective ?lp)"
    unfolding is_optimum_def by blast
  then have "89 * a + 86 * w
             \<le> 89 * q (''slash'', ''Biochar'') + 86 * q (''woodchips'', ''Biochar'')"
    by (simp add: scenario_W_family_objective)
  moreover from o have "q (''slash'', ''Biochar'') \<le> a" "q (''woodchips'', ''Biochar'') \<le> w"
    using assms(3) by (simp_all add: is_optimum_def scenario_W_family_feasible)
  ultimately show "q (''slash'', ''Biochar'') = a \<and> q (''woodchips'', ''Biochar'') = w"
    by simp
next
  assume "q (''slash'', ''Biochar'') = a \<and> q (''woodchips'', ''Biochar'') = w"
  with assms show "is_optimum (lp_spec (scenario_W\<lparr>slash_avail := a, woodchips_avail := w\<rparr>)) q"
    by (simp add: is_optimum_def scenario_W_family_feasible scenario_W_family_objective)
qed

lemma scenario_W_family_base:
  "scenario_W\<lparr>slash_avail := 1000, woodchips_avail := 500\<rparr> = scenario_W"
  by (simp add: scenario_W_def scenario_A_def)

lemma scenario_W_complete: "tables_complete scenario_W"
  using scenario_W_family_complete [where a = 1000 and w = 500] by (simp only: scenario_W_family_base)

lemma scenario_W_pairs:
  "all_pairs scenario_W = [(''Biochar'', ''slash''), (''Biochar'', ''woodchips'')]"
  "Q_keys scenario_W = [(''slash'', ''Biochar''), (''woodchips'', ''Biochar'')]"
  using scenario_W_family_pairs [where a = 1000 and w = 500] by (simp_all only: scenario_W_family_base)


lemma scenario_W_optimum:
  "is_optimum (lp_spec scenario_W) q \<longleftrightarrow>
     q (''slash'', ''Biochar'') = 1000 \<and> q (''woodchips'', ''Biochar'') = 500"
  using scenario_W_family_optimum [where a = 1000 and w = 500 and q = q] by (simp add: scenario_W_family_base)

lemma table_solver_correct_W:
  "solver_correct_on (table_solver Optimal scenario_W_values) (lp_spec scenario_W)"
proof -
  let ?q = "\<lambda>v :: var. if fst v = ''slash'' then 1000 else (500 :: real)"
  have "is_optimum (lp_spec scenario_W) ?q"
    by (simp add: scenario_W_optimum)
  moreover have "\<forall>v \<in> set (variables (lp_spec scenario_W)).
                   varValue (table_solver Optimal scenario_W_values (lp_spec scenario_W)) v
                   = Some (?q v)"
    by (simp add: lp_spec_def scenario_W_pairs table_solver_def scenario_W_values_def)
  ultimately have "returns_optimum (table_solver Optimal scenario_W_values) (lp_spec scenario_W)"
    unfolding returns_optimum_def by blast
  then show ?thesis
    by (simp add: solver_correct_on_def table_solver_def)
qed

text \<open>
  Claim C3. The built problem has exactly one constraint named \<open>SlashAvail\<close>, whatever
  the input, and it says that the sum of \<open>Q[slash, p]\<close> over the selected products is at
  most \<open>slash_avail\<close>. It has a constraint named \<open>WoodchipsAvail\<close> exactly when woodchips
  is active, a single one, and it says that the sum of \<open>Q[woodchips, p]\<close> is at most
  \<open>woodchips_avail\<close>. Hence every feasible point of the built problem meets both bounds
  (the second when woodchips is active), and so do the solved values whenever a correct
  solver reports \<open>Optimal\<close>.
\<close>

theorem availability_bounds:
  assumes "build_model P = Inr model"
  shows "filter (\<lambda>c. c_name c = ''SlashAvail'') (constraints model) = [slash_avail_spec P]
         \<and> filter (\<lambda>c. c_name c = ''WoodchipsAvail'') (constraints model)
             = (if include_woodchips P then [woodchips_avail_spec P] else [])
         \<and> (\<forall>q. satisfies q (slash_avail_spec P) \<longleftrightarrow>
                  (\<Sum>p \<leftarrow> selected_products P. q (''slash'', p)) \<le> slash_avail P)
         \<and> (\<forall>q. satisfies q (woodchips_avail_spec P) \<longleftrightarrow>
                  (\<Sum>p \<leftarrow> selected_products P. q (''woodchips'', p)) \<le> woodchips_avail P)
         \<and> (\<forall>q. feasible model q \<longrightarrow>
                  (\<Sum>p \<leftarrow> selected_products P. q (''slash'', p)) \<le> slash_avail P
                  \<and> (include_woodchips P \<longrightarrow>
                       (\<Sum>p \<leftarrow> selected_products P. q (''woodchips'', p)) \<le> woodchips_avail P))
         \<and> (solver_correct_on slv model \<and> status (slv model) = Optimal \<longrightarrow>
              (\<Sum>p \<leftarrow> selected_products P. value_or_zero (varValue (slv model) (''slash'', p)))
                \<le> slash_avail P
              \<and> (include_woodchips P \<longrightarrow>
                   (\<Sum>p \<leftarrow> selected_products P.
                      value_or_zero (varValue (slv model) (''woodchips'', p)))
                     \<le> woodchips_avail P))"
proof -
  have tc: "tables_complete P"
    using assms(1) by (rule build_model_InrD)
  have m: "model = lp_spec P"
    using assms(1) build_model_complete [OF tc] by simp
  have n1: "filter (\<lambda>c. c_name c = ''SlashAvail'') (constraints model) = [slash_avail_spec P]"
    unfolding m
    by (simp add: lp_spec_def slash_avail_spec_def woodchips_avail_spec_def max_cost_spec_def
          max_volume_spec_def filter_map comp_def)
  have n2: "filter (\<lambda>c. c_name c = ''WoodchipsAvail'') (constraints model)
            = (if include_woodchips P then [woodchips_avail_spec P] else [])"
    unfolding m
    by (simp add: lp_spec_def slash_avail_spec_def woodchips_avail_spec_def max_cost_spec_def
          max_volume_spec_def filter_map comp_def)
  have fb: "(\<Sum>p \<leftarrow> selected_products P. q (''slash'', p)) \<le> slash_avail P
            \<and> (include_woodchips P \<longrightarrow>
                 (\<Sum>p \<leftarrow> selected_products P. q (''woodchips'', p)) \<le> woodchips_avail P)"
    if "feasible model q" for q
    using that unfolding m
    by (simp add: feasible_lp_spec satisfies_slash_avail satisfies_woodchips_avail)
  have sb: "(\<Sum>p \<leftarrow> selected_products P. value_or_zero (varValue (slv model) (''slash'', p)))
              \<le> slash_avail P
            \<and> (include_woodchips P \<longrightarrow>
                 (\<Sum>p \<leftarrow> selected_products P.
                    value_or_zero (varValue (slv model) (''woodchips'', p)))
                   \<le> woodchips_avail P)"
    if c: "solver_correct_on slv model" and o: "status (slv model) = Optimal"
  proof -
    from c o obtain q where
      q: "is_optimum (lp_spec P) q"
      and v: "\<And>x. x \<in> set (Q_keys P) \<Longrightarrow> varValue (slv (lp_spec P)) x = Some (q x)"
      unfolding solver_correct_on_def returns_optimum_def m by (auto simp: lp_spec_def)
    have f: "feasible model q"
      using q by (simp add: is_optimum_def m)
    have s: "(\<Sum>p \<leftarrow> selected_products P. value_or_zero (varValue (slv model) (''slash'', p)))
             = (\<Sum>p \<leftarrow> selected_products P. q (''slash'', p))"
      unfolding m
      by (rule sum_list_map_cong_set)
         (simp add: v in_Q_keys slash_in_feedstocks value_or_zero_def)
    have w: "(\<Sum>p \<leftarrow> selected_products P.
                value_or_zero (varValue (slv model) (''woodchips'', p)))
             = (\<Sum>p \<leftarrow> selected_products P. q (''woodchips'', p))" if "include_woodchips P"
      unfolding m
      by (rule sum_list_map_cong_set)
         (simp add: v in_Q_keys woodchips_in_feedstocks [OF that] value_or_zero_def)
    from fb [OF f] s w show ?thesis
      by simp
  qed
  show ?thesis
    using n1 n2 fb sb
    by (simp add: satisfies_slash_avail satisfies_woodchips_avail)
qed

theorem availability_bounds_witness:
  "build_model scenario_W = Inr (lp_spec scenario_W)
   \<and> include_woodchips scenario_W
   \<and> filter (\<lambda>c. c_name c = ''SlashAvail'') (constraints (lp_spec scenario_W))
       = [\<lparr>c_name = ''SlashAvail'', c_lhs = LpSum [LpVar (''slash'', ''Biochar'')],
           c_rhs = LpConst 1000\<rparr>]
   \<and> filter (\<lambda>c. c_name c = ''WoodchipsAvail'') (constraints (lp_spec scenario_W))
       = [\<lparr>c_name = ''WoodchipsAvail'', c_lhs = LpSum [LpVar (''woodchips'', ''Biochar'')],
           c_rhs = LpConst 500\<rparr>]
   \<and> solver_correct_on (table_solver Optimal scenario_W_values) (lp_spec scenario_W)
   \<and> status (table_solver Optimal scenario_W_values (lp_spec scenario_W)) = Optimal
   \<and> (\<Sum>p \<leftarrow> selected_products scenario_W.
        value_or_zero (varValue (table_solver Optimal scenario_W_values (lp_spec scenario_W))
          (''slash'', p))) = 1000
   \<and> slash_avail scenario_W = 1000
   \<and> (\<Sum>p \<leftarrow> selected_products scenario_W.
        value_or_zero (varValue (table_solver Optimal scenario_W_values (lp_spec scenario_W))
          (''woodchips'', p))) = 500
   \<and> woodchips_avail scenario_W = 500
   \<and> \<not> feasible (lp_spec scenario_W) (\<lambda>v. 501)"
proof -
  have b: "build_model scenario_W = Inr (lp_spec scenario_W)"
    by (rule build_model_complete [OF scenario_W_complete])
  have st: "status (table_solver Optimal scenario_W_values (lp_spec scenario_W)) = Optimal"
    by (simp add: table_solver_def)
  have iw: "include_woodchips scenario_W"
    by (simp add: scenario_W_def)
  have vals: "selected_products scenario_W = [''Biochar'']" "slash_avail scenario_W = 1000"
    "woodchips_avail scenario_W = 500"
    "varValue (table_solver Optimal scenario_W_values (lp_spec scenario_W))
       (''slash'', ''Biochar'') = Some 1000"
    "varValue (table_solver Optimal scenario_W_values (lp_spec scenario_W))
       (''woodchips'', ''Biochar'') = Some 500"
    by (simp_all add: scenario_W_fields table_solver_def scenario_W_values_def)
  have sp: "slash_avail_spec scenario_W
            = \<lparr>c_name = ''SlashAvail'', c_lhs = LpSum [LpVar (''slash'', ''Biochar'')],
               c_rhs = LpConst 1000\<rparr>"
    "woodchips_avail_spec scenario_W
            = \<lparr>c_name = ''WoodchipsAvail'', c_lhs = LpSum [LpVar (''woodchips'', ''Biochar'')],
               c_rhs = LpConst 500\<rparr>"
    by (simp_all add: slash_avail_spec_def woodchips_avail_spec_def vals)
  note t = availability_bounds [OF b, of "table_solver Optimal scenario_W_values"]
  have n1: "filter (\<lambda>c. c_name c = ''SlashAvail'') (constraints (lp_spec scenario_W))
            = [slash_avail_spec scenario_W]"
    using t by (rule conjunct1)
  have n2: "filter (\<lambda>c. c_name c = ''WoodchipsAvail'') (constraints (lp_spec scenario_W))
            = [woodchips_avail_spec scenario_W]"
    using t [THEN conjunct2, THEN conjunct1] iw by simp
  have nf: "\<not> feasible (lp_spec scenario_W) (\<lambda>v. 501)"
    using t [THEN conjunct2, THEN conjunct2, THEN conjunct2, THEN conjunct2, THEN conjunct1,
             THEN spec, of "\<lambda>v. 501"]
    using iw by (auto simp: vals)
  show ?thesis
    using b iw st table_solver_correct_W n1 n2 nf
    by (simp add: sp vals value_or_zero_def)
qed

lemma round2_of_int: "round2 (of_int n) = of_int n"
  by (simp add: round2_def)

lemma all_pairs_scenario_A: "all_pairs scenario_A = [(''Biochar'', ''slash'')]"
  by (simp add: all_pairs_def feedstocks_def scenario_A_def)

lemma figures_scenario_A:
  "delivered_cost_per_ton scenario_A ''slash'' ''Biochar'' = 76"
  "revenue_per_ton scenario_A ''slash'' ''Biochar'' = 165"
  "net_margin_per_ton scenario_A ''slash'' ''Biochar'' = 89"
  by (simp_all add: net_margin_per_ton_def revenue_per_ton_def carbon_credit_def
        delivered_cost_per_ton_def base_cost_def scenario_A_def)

lemma round2_numerals:
  "round2 0 = 0" "round2 10 = 10" "round2 76 = 76" "round2 89 = 89" "round2 165 = 165"
  "round2 1000 = 1000" "round2 76000 = 76000" "round2 89000 = 89000"
  "round2 165000 = 165000"
  by (simp_all add: round2_def)

text \<open>
  Claim C5 (scenario A). With the single product Biochar, slash only, \<open>slash_avail\<close> 1000,
  market price 150, cost cap 130, volume cap 999999, harvest 25, transport 30, wood 0,
  carbon credit 15, processing 10, depreciation 0 and \<open>reg_factor\<close> 0.2, a correct solver
  makes \<open>solve_biomass_model\<close> return the status \<open>Optimal\<close>, the single line item
  (slash, Biochar) with 1000 tons, delivered cost 76, net margin 89, and the total 89000.
\<close>

theorem scenario_A_result:
  assumes "build_model scenario_A = Inr model" and "solver_correct_on slv model"
  shows "solve_biomass_model slv scenario_A = Inr (''Optimal'', [scenario_A_row], Some 89000)"
proof -
  have m: "model = lp_spec scenario_A"
    using assms(1) build_model_complete [OF scenario_A_complete] by simp
  have ex: "\<exists>q. is_optimum (lp_spec scenario_A) q"
    by (rule exI [of _ "\<lambda>v. 1000"]) (simp add: scenario_A_optimum)
  with assms(2) have st: "status (slv (lp_spec scenario_A)) = Optimal"
    by (simp add: solver_correct_on_def m)
  with assms(2) obtain q where "is_optimum (lp_spec scenario_A) q"
    and "\<forall>v \<in> set (variables (lp_spec scenario_A)). varValue (slv (lp_spec scenario_A)) v = Some (q v)"
    unfolding solver_correct_on_def returns_optimum_def m by blast
  then have v: "varValue (slv (lp_spec scenario_A)) (''slash'', ''Biochar'') = Some 1000"
    by (simp add: scenario_A_optimum variables_scenario_A)
  have rows: "rows_spec scenario_A (varValue (slv (lp_spec scenario_A))) = [scenario_A_row]"
    by (simp add: rows_spec_def all_pairs_scenario_A material_def v value_or_zero_def
          row_spec_def figures_scenario_A round2_numerals scenario_A_row_def)
       (simp add: scenario_A_def round2_numerals)
  have total: "total_spec scenario_A (varValue (slv (lp_spec scenario_A))) = Some 89000"
    by (simp add: total_spec_def priced_keys_def all_pairs_scenario_A figures_scenario_A v value_or_zero_def
          variables_scenario_A [unfolded lp_spec_def, simplified])
  show ?thesis
    by (simp add: solve_complete [OF scenario_A_complete] st rows total)
qed

theorem scenario_A_result_witness:
  "build_model scenario_A = Inr (lp_spec scenario_A)
   \<and> solver_correct_on (fixed_solver Optimal (Some 1000)) (lp_spec scenario_A)
   \<and> solve_biomass_model (fixed_solver Optimal (Some 1000)) scenario_A
       = Inr (''Optimal'', [scenario_A_row], Some 89000)"
proof -
  have b: "build_model scenario_A = Inr (lp_spec scenario_A)"
    by (rule build_model_complete [OF scenario_A_complete])
  from scenario_A_result [OF b fixed_solver_correct_A] b fixed_solver_correct_A
  show ?thesis by simp
qed

lemma scenario_B_complete: "tables_complete scenario_B"
  by (simp add: tables_complete_def scenario_B_def scenario_A_def feedstocks_def pair_keys_def
        cost_keys_def)

lemma scenario_B_feasible:
  "feasible (lp_spec scenario_B) q \<longleftrightarrow> q (''slash'', ''Biochar'') = 0"
  by (auto simp: feasible_lp_spec satisfies_slash_avail satisfies_max_cost satisfies_max_volume
        Q_keys_def feedstocks_def delivered_cost_per_ton_def base_cost_def scenario_B_def
        scenario_A_def)

lemma scenario_B_objective:
  "eval q (objective (lp_spec scenario_B)) = 89 * q (''slash'', ''Biochar'')"
  by (simp add: lp_spec_def eval_objective_spec all_pairs_def feedstocks_def
        net_margin_per_ton_def revenue_per_ton_def carbon_credit_def
        delivered_cost_per_ton_def base_cost_def scenario_B_def scenario_A_def)

lemma scenario_B_optimum:
  "is_optimum (lp_spec scenario_B) q \<longleftrightarrow> q (''slash'', ''Biochar'') = 0"
  by (auto simp: is_optimum_def scenario_B_feasible scenario_B_objective)

lemma variables_scenario_B: "variables (lp_spec scenario_B) = [(''slash'', ''Biochar'')]"
  by (simp add: lp_spec_def Q_keys_def feedstocks_def scenario_B_def scenario_A_def)

lemma all_pairs_scenario_B: "all_pairs scenario_B = [(''Biochar'', ''slash'')]"
  by (simp add: all_pairs_def feedstocks_def scenario_B_def scenario_A_def)

lemma net_margin_scenario_B: "net_margin_per_ton scenario_B ''slash'' ''Biochar'' = 89"
  by (simp add: net_margin_per_ton_def revenue_per_ton_def carbon_credit_def
        delivered_cost_per_ton_def base_cost_def scenario_B_def scenario_A_def)

lemma fixed_solver_correct_B:
  "solver_correct_on (fixed_solver Optimal (Some 0)) (lp_spec scenario_B)"
proof -
  have "is_optimum (lp_spec scenario_B) (\<lambda>v. 0)"
    by (simp add: scenario_B_optimum)
  then have "returns_optimum (fixed_solver Optimal (Some 0)) (lp_spec scenario_B)"
    unfolding returns_optimum_def by (intro exI [of _ "\<lambda>v. 0"]) (simp add: fixed_solver_def)
  then show ?thesis
    by (simp add: solver_correct_on_def fixed_solver_def)
qed

text \<open>
  Claim C6 (scenario B). Scenario A with the cost cap lowered to 50, below the delivered
  cost of 76: a correct solver makes \<open>solve_biomass_model\<close> return the status \<open>Optimal\<close>,
  no line item and the total 0. The all-zero allocation is feasible, and the cost-cap
  constraint forces the only variable to 0 in every feasible point.
\<close>

theorem scenario_B_result:
  assumes "build_model scenario_B = Inr model" and "solver_correct_on slv model"
  shows "solve_biomass_model slv scenario_B = Inr (''Optimal'', [], Some 0)
         \<and> delivered_cost_per_ton scenario_B ''slash'' ''Biochar'' = 76
         \<and> the (max_deliv_cost scenario_B ''Biochar'') = 50
         \<and> feasible model (\<lambda>v. 0)
         \<and> (\<forall>q. feasible model q \<longrightarrow> q (''slash'', ''Biochar'') = 0)"
proof -
  have m: "model = lp_spec scenario_B"
    using assms(1) build_model_complete [OF scenario_B_complete] by simp
  have ex: "\<exists>q. is_optimum (lp_spec scenario_B) q"
    by (rule exI [of _ "\<lambda>v. 0"]) (simp add: scenario_B_optimum)
  with assms(2) have st: "status (slv (lp_spec scenario_B)) = Optimal"
    by (simp add: solver_correct_on_def m)
  with assms(2) obtain q where "is_optimum (lp_spec scenario_B) q"
    and "\<forall>v \<in> set (variables (lp_spec scenario_B)). varValue (slv (lp_spec scenario_B)) v = Some (q v)"
    unfolding solver_correct_on_def returns_optimum_def m by blast
  then have v: "varValue (slv (lp_spec scenario_B)) (''slash'', ''Biochar'') = Some 0"
    by (simp add: scenario_B_optimum variables_scenario_B)
  have rows: "rows_spec scenario_B (varValue (slv (lp_spec scenario_B))) = []"
    by (simp add: rows_spec_def all_pairs_scenario_B material_def v value_or_zero_def)
  have total: "total_spec scenario_B (varValue (slv (lp_spec scenario_B))) = Some 0"
    by (simp add: total_spec_def priced_keys_def all_pairs_scenario_B v value_or_zero_def
          net_margin_scenario_B)
  have dc: "delivered_cost_per_ton scenario_B ''slash'' ''Biochar'' = 76"
    by (simp add: delivered_cost_per_ton_def base_cost_def scenario_B_def scenario_A_def)
  have cap: "the (max_deliv_cost scenario_B ''Biochar'') = 50"
    by (simp add: scenario_B_def)
  show ?thesis
    by (simp add: solve_complete [OF scenario_B_complete] st rows total dc cap m
          scenario_B_feasible)
qed

theorem scenario_B_result_witness:
  "build_model scenario_B = Inr (lp_spec scenario_B)
   \<and> solver_correct_on (fixed_solver Optimal (Some 0)) (lp_spec scenario_B)
   \<and> solve_biomass_model (fixed_solver Optimal (Some 0)) scenario_B
       = Inr (''Optimal'', [], Some 0)"
proof -
  have b: "build_model scenario_B = Inr (lp_spec scenario_B)"
    by (rule build_model_complete [OF scenario_B_complete])
  from scenario_B_result [OF b fixed_solver_correct_B, THEN conjunct1] b fixed_solver_correct_B
  show ?thesis by simp
qed

lemma threshold_complete: "tables_complete threshold_params"
  by (simp add: tables_complete_def threshold_params_def scenario_A_def feedstocks_def
        pair_keys_def cost_keys_def)

lemma threshold_feasible:
  "feasible (lp_spec threshold_params) q \<longleftrightarrow>
     0 \<le> q (''slash'', ''Biochar'') \<and> q (''slash'', ''Biochar'') \<le> 1 / 1000000"
  by (auto simp: feasible_lp_spec satisfies_slash_avail satisfies_max_cost satisfies_max_volume
        Q_keys_def feedstocks_def delivered_cost_per_ton_def base_cost_def threshold_params_def
        scenario_A_def)

lemma threshold_objective:
  "eval q (objective (lp_spec threshold_params)) = 89 * q (''slash'', ''Biochar'')"
  by (simp add: lp_spec_def eval_objective_spec all_pairs_def feedstocks_def
        net_margin_per_ton_def revenue_per_ton_def carbon_credit_def
        delivered_cost_per_ton_def base_cost_def threshold_params_def scenario_A_def)

lemma threshold_solver_correct:
  "solver_correct_on (fixed_solver Optimal (Some (1 / 1000000))) (lp_spec threshold_params)"
proof -
  have "is_optimum (lp_spec threshold_params) (\<lambda>v. 1 / 1000000)"
    by (simp add: is_optimum_def threshold_feasible threshold_objective)
  then have "returns_optimum (fixed_solver Optimal (Some (1 / 1000000)))
               (lp_spec threshold_params)"
    unfolding returns_optimum_def
    by (intro exI [of _ "\<lambda>v. 1 / 1000000"]) (simp add: fixed_solver_def)
  then show ?thesis
    by (simp add: solver_correct_on_def fixed_solver_def)
qed

lemma round2_small: "round2 (1 / 1000000) = 0" "round2 (19 / 250000) = 0"
  "round2 (33 / 200000) = 0" "round2 (89 / 1000000) = 0"
  by (simp_all add: round2_def)

text \<open>
  Claim C7, as stated, fails at the threshold itself. With a slash availability of
  exactly 1e-6 the optimum allocates 1e-6 tons; the row loop skips a pair only when its
  tonnage is below 1e-6, so the line item is emitted although the solved value is not
  strictly greater than 1e-6.
\<close>

theorem threshold_row_emitted:
  "solve_biomass_model (fixed_solver Optimal (Some (1 / 1000000))) threshold_params
     = Inr (''Optimal'', [threshold_row], Some (89 / 1000000))
   \<and> varValue (fixed_solver Optimal (Some (1 / 1000000)) (lp_spec threshold_params))
       (''slash'', ''Biochar'') = Some (1 / 1000000)
   \<and> \<not> (1 / 1000000 < value_or_zero (Some (1 / 1000000)))
   \<and> build_model threshold_params = Inr (lp_spec threshold_params)
   \<and> solver_correct_on (fixed_solver Optimal (Some (1 / 1000000))) (lp_spec threshold_params)"
proof -
  have ap: "all_pairs threshold_params = [(''Biochar'', ''slash'')]"
    by (simp add: all_pairs_def feedstocks_def threshold_params_def scenario_A_def)
  have qk: "Q_keys threshold_params = [(''slash'', ''Biochar'')]"
    by (simp add: Q_keys_def feedstocks_def threshold_params_def scenario_A_def)
  have fig: "delivered_cost_per_ton threshold_params ''slash'' ''Biochar'' = 76"
    "revenue_per_ton threshold_params ''slash'' ''Biochar'' = 165"
    "net_margin_per_ton threshold_params ''slash'' ''Biochar'' = 89"
    by (simp_all add: net_margin_per_ton_def revenue_per_ton_def carbon_credit_def
          delivered_cost_per_ton_def base_cost_def threshold_params_def scenario_A_def)
  have rows: "rows_spec threshold_params (\<lambda>v. Some (1 / 1000000)) = [threshold_row]"
    by (simp add: rows_spec_def ap material_def value_or_zero_def row_spec_def fig
          round2_numerals round2_small threshold_row_def)
       (simp add: threshold_params_def scenario_A_def round2_numerals)
  have total: "total_spec threshold_params (\<lambda>v. Some (1 / 1000000)) = Some (89 / 1000000)"
    by (simp add: total_spec_def priced_keys_def ap fig value_or_zero_def qk)
  have s: "solve_biomass_model (fixed_solver Optimal (Some (1 / 1000000))) threshold_params
           = Inr (''Optimal'', [threshold_row], Some (89 / 1000000))"
    by (simp add: solve_complete [OF threshold_complete] fixed_solver_def rows total)
  show ?thesis
    using s threshold_solver_correct build_model_complete [OF threshold_complete]
    by (simp add: fixed_solver_def value_or_zero_def)
qed

text \<open>
  Claim C7, amended. A line item is emitted for a (product, feedstock) pair exactly when
  its solved value, an unassigned value counting as 0, is at least 1e-6. The emitted items
  are the rows \<open>row_spec\<close> of these pairs, in the enumeration order of the selected
  products and, inside a product, of the active feedstocks, with no further sorting; every
  field of \<open>row_spec\<close> but the tonnage is computed from the input parameters by the
  documented formulas and rounded to 2 decimals, and the solver contributes the tonnage
  only.
\<close>

theorem line_items_emitted:
  assumes "build_model P = Inr model"
  shows "\<exists>total. solve_biomass_model slv P =
           Inr (LpStatus (status (slv model)),
                map (\<lambda>(p, f). row_spec P (varValue (slv model)) p f)
                  (filter (\<lambda>(p, f). 1 / 1000000 \<le> value_or_zero (varValue (slv model) (f, p)))
                     (concat (map (\<lambda>p. map (\<lambda>f. (p, f)) (feedstocks P))
                        (selected_products P)))),
                total)"
proof -
  have tc: "tables_complete P"
    using assms by (rule build_model_InrD)
  have m: "model = lp_spec P"
    using assms build_model_complete [OF tc] by simp
  show ?thesis
    by (simp add: solve_complete [OF tc] m rows_spec_def material_def all_pairs_def)
qed

theorem line_items_emitted_witness:
  "build_model scenario_A = Inr (lp_spec scenario_A)
   \<and> solve_biomass_model (fixed_solver Optimal (Some 1000)) scenario_A
       = Inr (''Optimal'', [row_spec scenario_A (\<lambda>v. Some 1000) ''Biochar'' ''slash''],
              Some 89000)"
proof -
  have b: "build_model scenario_A = Inr (lp_spec scenario_A)"
    by (rule build_model_complete [OF scenario_A_complete])
  from line_items_emitted [OF b, of "fixed_solver Optimal (Some 1000)"]
  obtain total where
    "solve_biomass_model (fixed_solver Optimal (Some 1000)) scenario_A
     = Inr (''Optimal'', [row_spec scenario_A (\<lambda>v. Some 1000) ''Biochar'' ''slash''], total)"
    by (auto simp: fixed_solver_def value_or_zero_def feedstocks_def scenario_A_def)
  moreover have "total_spec scenario_A (\<lambda>v. Some 1000) = Some 89000"
    by (simp add: total_spec_def priced_keys_def all_pairs_scenario_A figures_scenario_A value_or_zero_def
          variables_scenario_A [unfolded lp_spec_def, simplified])
  ultimately show ?thesis
    using b by (simp add: solve_complete [OF scenario_A_complete] fixed_solver_def)
qed























































end
